theory Spec2Isabelle
  imports Main "HOL-Library.Word"
begin

unbundle bit_operations_syntax

section \<open>Basic types of the RingSocket API (ringsocket_api.h)\<close>

type_synonym byte = "8 word"
type_synonym uint16_t = "16 word"
type_synonym uint32_t = "32 word"
type_synonym uint64_t = "64 word"

text \<open>\<^verbatim>\<open>size_t\<close> and \<^verbatim>\<open>ssize_t\<close> of the LP64 Linux target are 64-bit machine words;
  \<^verbatim>\<open>ssize_t\<close> values are read with \<^const>\<open>sint\<close>.\<close>

type_synonym size_t = "64 word"
type_synonym ssize_t = "64 word"

text \<open>\<^verbatim>\<open>typedef enum { RS_OK = 0, RS_CLOSE_PEER = -1, RS_FATAL = -2, RS_AGAIN = -3 } rs_ret\<close>\<close>

datatype rs_ret = RS_OK | RS_CLOSE_PEER | RS_FATAL | RS_AGAIN

section \<open>The TCP layer (rs_tcp.c)\<close>

subsection \<open>Peers and the environment of system calls\<close>

text \<open>Modelled from the spec: the declarations of \<^verbatim>\<open>enum rs_layer\<close>, \<^verbatim>\<open>enum rs_mortality\<close>
  and \<^verbatim>\<open>union rs_peer\<close> (rs_socket.h) are not among the sources. The spec gives
  \<open>layer \<in> {TCP, TLS, HTTP, WS}\<close> and
  \<open>mortality \<in> {LIVE, SHUTDOWN_WRITE, SHUTDOWN_READ, DEAD}\<close>, each in this order, and the
  peer attributes used by rs_tcp.c.\<close>

datatype rs_layer = RS_LAYER_TCP | RS_LAYER_TLS | RS_LAYER_HTTP | RS_LAYER_WEBSOCKET

datatype rs_mortality =
  RS_MORTALITY_LIVE | RS_MORTALITY_SHUTDOWN_WRITE | RS_MORTALITY_SHUTDOWN_READ | RS_MORTALITY_DEAD

record rs_peer =
  socket_fd :: int
  is_encrypted :: bool
  layer :: rs_layer
  mortality :: rs_mortality
  is_writing :: bool
  old_wsize :: size_t

text \<open>\<^verbatim>\<open>memset(peer, 0, sizeof(union rs_peer))\<close>: every field becomes its zero value, which
  for the two enums is the first enumerator.\<close>

definition zeroed_peer :: rs_peer where
  "zeroed_peer = \<lparr>socket_fd = 0, is_encrypted = False, layer = RS_LAYER_TCP,
     mortality = RS_MORTALITY_LIVE, is_writing = False, old_wsize = 0\<rparr>"

text \<open>The answer of the kernel to one system call: the value the call returned and the
  value found in \<^verbatim>\<open>errno\<close> once it has returned.\<close>

record sys_reply =
  ret :: ssize_t
  errno :: int

text \<open>\<^verbatim>\<open>EAGAIN\<close> comes from the system's \<^verbatim>\<open><errno.h>\<close>; on Linux it is 11.\<close>

definition EAGAIN :: int where
  "EAGAIN = 11"

text \<open>What a function does to the outside world, in the order it does it: system calls,
  invocations of the logging macros (with their syslog priority), the zeroing of the peer
  slot and the call of \<^verbatim>\<open>free_peer_slot\<close>.\<close>

datatype log_level = LOG_ALERT | LOG_CRIT | LOG_ERR | LOG_WARNING | LOG_NOTICE | LOG_DEBUG

datatype event =
  Ev_read int size_t
  | Ev_write int "byte list"
  | Ev_shutdown_wr int
  | Ev_close int
  | Ev_log log_level
  | Ev_memset_peer rs_peer
  | Ev_free_peer_slot int

subsection \<open>\<^verbatim>\<open>read_tcp\<close>\<close>

text \<open>The result is the returned status, the peer as left behind, the value stored through
  the output parameter \<^verbatim>\<open>rsize\<close> (every path stores one) and the events. The bytes which
  \<^verbatim>\<open>read()\<close> places in \<^verbatim>\<open>rbuf\<close> are the kernel's doing and are not inspected here.\<close>

definition read_tcp :: "rs_peer \<Rightarrow> size_t \<Rightarrow> sys_reply \<Rightarrow> rs_ret \<times> rs_peer \<times> size_t \<times> event list" where
  "read_tcp peer rbuf_size r =
     (let ev = [Ev_read (socket_fd peer) rbuf_size] in
      if 0 < sint (ret r) then (RS_OK, peer, ret r, ev)
      else if ret r = 0 then (RS_CLOSE_PEER, peer, 0, ev @ [Ev_log LOG_NOTICE])
      else if errno r = EAGAIN then (RS_AGAIN, peer\<lparr>is_writing := False\<rparr>, 0, ev)
      else (RS_CLOSE_PEER, peer, 0, ev @ [Ev_log LOG_ERR]))"

subsection \<open>\<^verbatim>\<open>write_tcp\<close>\<close>

text \<open>\<^verbatim>\<open>write(fd, (uint8_t *) wbuf + peer->old_wsize, remaining_wsize)\<close> offers the kernel the
  bytes of \<open>wbuf\<close> from index \<open>old_wsize\<close> on, at most \<open>remaining_wsize\<close> of them. A positive
  return value \<open>w\<close> means that the kernel has taken the first \<open>w\<close> bytes offered; \<open>sock\<close> is
  the stream of bytes taken for the socket so far.

  The result is the status, the peer, the stream, the value of \<^verbatim>\<open>errno\<close> afterwards (the
  function assigns to it) and the events.\<close>

definition write_tcp ::
  "rs_peer \<Rightarrow> byte list \<Rightarrow> size_t \<Rightarrow> byte list \<Rightarrow> sys_reply
     \<Rightarrow> rs_ret \<times> rs_peer \<times> byte list \<times> int \<times> event list" where
  "write_tcp peer wbuf wbuf_size sock r =
     (let remaining_wsize = wbuf_size - old_wsize peer;
          offered = take (unat remaining_wsize) (drop (unat (old_wsize peer)) wbuf);
          ev = [Ev_write (socket_fd peer) offered]
      in if 0 < sint (ret r) then
           (let wsize = ret r;
                sock' = sock @ take (unat wsize) offered
            in if wsize = remaining_wsize
               then (RS_OK, peer\<lparr>old_wsize := 0\<rparr>, sock', errno r, ev)
               else (RS_AGAIN, peer\<lparr>old_wsize := old_wsize peer + wsize, is_writing := True\<rparr>,
                     sock', errno r, ev))
         else
           \<comment> \<open>\<^verbatim>\<open>if (errno = EAGAIN)\<close>: an assignment, whose value is then tested\<close>
           (let errno' = EAGAIN
            in if errno' \<noteq> 0
               then (RS_AGAIN, peer\<lparr>is_writing := True\<rparr>, sock, errno', ev)
               else (RS_CLOSE_PEER, peer, sock, errno', ev @ [Ev_log LOG_ERR])))"

subsection \<open>The bidirectional shutdown\<close>

definition write_bidirectional_tcp_shutdown ::
  "rs_peer \<Rightarrow> sys_reply \<Rightarrow> rs_ret \<times> rs_peer \<times> event list" where
  "write_bidirectional_tcp_shutdown peer r =
     (if ret r = - 1
      then (RS_FATAL, peer, [Ev_shutdown_wr (socket_fd peer), Ev_log LOG_CRIT])
      else (RS_OK, peer\<lparr>mortality := RS_MORTALITY_SHUTDOWN_READ\<rparr>,
            [Ev_shutdown_wr (socket_fd peer)]))"

text \<open>The \<^verbatim>\<open>do { rsize = read(...); RS_LOG(LOG_DEBUG, ...); } while (rsize > 0)\<close> loop of
  \<^verbatim>\<open>read_bidirectional_tcp_shutdown\<close>. The \<open>k\<close>-th \<^verbatim>\<open>read()\<close> of the invocation is answered by
  \<open>rd k\<close>. A peer that never stops sending keeps the loop running for ever, so the loop is a
  partial function: \<open>None\<close> stands for not returning.\<close>

partial_function (option) read_drain ::
  "int \<Rightarrow> size_t \<Rightarrow> (nat \<Rightarrow> sys_reply) \<Rightarrow> nat \<Rightarrow> event list \<Rightarrow> (sys_reply \<times> event list) option" where
  "read_drain fd rbuf_size rd k evs =
     (let r = rd k;
          evs' = evs @ [Ev_read fd rbuf_size, Ev_log LOG_DEBUG]
      in if 0 < sint (ret r) then read_drain fd rbuf_size rd (Suc k) evs'
         else Some (r, evs'))"

definition read_bidirectional_tcp_shutdown ::
  "rs_peer \<Rightarrow> size_t \<Rightarrow> (nat \<Rightarrow> sys_reply) \<Rightarrow> (rs_ret \<times> rs_peer \<times> event list) option" where
  "read_bidirectional_tcp_shutdown peer rbuf_size rd =
     (case read_drain (socket_fd peer) rbuf_size rd 0 [] of
        None \<Rightarrow> None
      | Some (r, evs) \<Rightarrow>
          Some (if ret r = 0
                then (RS_CLOSE_PEER, peer\<lparr>mortality := RS_MORTALITY_DEAD\<rparr>, evs)
                else if errno r = EAGAIN
                then (RS_AGAIN, peer\<lparr>is_writing := False\<rparr>, evs)
                else (RS_CLOSE_PEER, peer\<lparr>mortality := RS_MORTALITY_DEAD\<rparr>,
                      evs @ [Ev_log LOG_WARNING])))"

subsection \<open>\<^verbatim>\<open>handle_tcp_io\<close>\<close>

text \<open>Everything \<^verbatim>\<open>handle_tcp_io\<close> receives from outside: the kernel's answers to
  \<^verbatim>\<open>shutdown()\<close>, to the successive \<^verbatim>\<open>read()\<close> calls and to \<^verbatim>\<open>close()\<close>, and the status of
  \<^verbatim>\<open>init_tls_session\<close> (rs_tls.c, not among the sources: a parameter here; it works on the TLS
  handle of the peer, which is not one of the fields above).\<close>

record tcp_env =
  shutdown_reply :: sys_reply
  read_replies :: "nat \<Rightarrow> sys_reply"
  close_reply :: sys_reply
  init_tls_session :: "rs_peer \<Rightarrow> rs_ret"

text \<open>The code after the \<^verbatim>\<open>switch\<close>: \<^verbatim>\<open>close()\<close>, \<^verbatim>\<open>memset()\<close>, \<^verbatim>\<open>free_peer_slot()\<close>. The
  \<open>Ev_memset_peer\<close> event records the contents of the slot at the moment it is wiped.\<close>

definition close_and_free_peer ::
  "rs_peer \<Rightarrow> int \<Rightarrow> tcp_env \<Rightarrow> event list \<Rightarrow> rs_ret \<times> rs_peer \<times> event list" where
  "close_and_free_peer peer peer_i env evs =
     (RS_OK, zeroed_peer,
      evs @ [Ev_close (socket_fd peer)]
          @ (if ret (close_reply env) = - 1 then [Ev_log LOG_ERR] else [])
          @ [Ev_memset_peer peer, Ev_free_peer_slot peer_i])"

text \<open>\<^verbatim>\<open>case RS_MORTALITY_SHUTDOWN_READ\<close>, entered directly or by falling through from the case
  above it; \<open>evs\<close> are the events so far.\<close>

definition shutdown_read_case ::
  "rs_peer \<Rightarrow> size_t \<Rightarrow> int \<Rightarrow> tcp_env \<Rightarrow> event list \<Rightarrow> (rs_ret \<times> rs_peer \<times> event list) option" where
  "shutdown_read_case peer rbuf_size peer_i env evs =
     (case read_bidirectional_tcp_shutdown peer rbuf_size (read_replies env) of
        None \<Rightarrow> None
      | Some (st, peer', evs') \<Rightarrow>
          (case st of
             RS_AGAIN \<Rightarrow> Some (RS_OK, peer', evs @ evs')
           | RS_FATAL \<Rightarrow> Some (RS_FATAL, peer', evs @ evs')
           | _ \<Rightarrow> Some (close_and_free_peer peer' peer_i env (evs @ evs'))))"

definition handle_tcp_io ::
  "rs_peer \<Rightarrow> size_t \<Rightarrow> int \<Rightarrow> tcp_env \<Rightarrow> (rs_ret \<times> rs_peer \<times> event list) option" where
  "handle_tcp_io peer rbuf_size peer_i env =
     (case mortality peer of
        RS_MORTALITY_LIVE \<Rightarrow>
          (if is_encrypted peer then
             (let peer' = peer\<lparr>layer := RS_LAYER_TLS\<rparr>;
                  st = init_tls_session env peer'
              in if st \<noteq> RS_OK then Some (st, peer', []) else Some (RS_OK, peer', []))
           else Some (RS_OK, peer\<lparr>layer := RS_LAYER_HTTP\<rparr>, []))
      | RS_MORTALITY_SHUTDOWN_WRITE \<Rightarrow>
          (case write_bidirectional_tcp_shutdown peer (shutdown_reply env) of
             (st, peer', evs) \<Rightarrow>
               if st \<noteq> RS_OK then Some (st, peer', evs)
               else shutdown_read_case peer' rbuf_size peer_i env evs)
      | RS_MORTALITY_SHUTDOWN_READ \<Rightarrow> shutdown_read_case peer rbuf_size peer_i env []
      | RS_MORTALITY_DEAD \<Rightarrow> Some (close_and_free_peer peer peer_i env []))"

text \<open>The events by which a peer slot is given up, and their subsequence in a trace.\<close>

primrec is_release_event :: "event \<Rightarrow> bool" where
  "is_release_event (Ev_read fd n) = False"
| "is_release_event (Ev_write fd bs) = False"
| "is_release_event (Ev_shutdown_wr fd) = False"
| "is_release_event (Ev_close fd) = True"
| "is_release_event (Ev_log l) = False"
| "is_release_event (Ev_memset_peer q) = True"
| "is_release_event (Ev_free_peer_slot i) = True"

definition release_events :: "event list \<Rightarrow> event list" where
  "release_events evs = filter is_release_event evs"

section \<open>The app helper functions (ringsocket_app_helper.h)\<close>

subsection \<open>Integers in memory and byte order\<close>

text \<open>The bytes of an unsigned integer, least significant first, and the integer made of a
  sequence of bytes read least significant first.\<close>

definition bytes_le16 :: "uint16_t \<Rightarrow> byte list" where
  "bytes_le16 w = [ucast w, ucast (drop_bit 8 w)]"

definition bytes_le32 :: "uint32_t \<Rightarrow> byte list" where
  "bytes_le32 w = [ucast w, ucast (drop_bit 8 w), ucast (drop_bit 16 w), ucast (drop_bit 24 w)]"

definition bytes_le64 :: "uint64_t \<Rightarrow> byte list" where
  "bytes_le64 w =
     [ucast w, ucast (drop_bit 8 w), ucast (drop_bit 16 w), ucast (drop_bit 24 w),
      ucast (drop_bit 32 w), ucast (drop_bit 40 w), ucast (drop_bit 48 w), ucast (drop_bit 56 w)]"

definition word_le :: "byte list \<Rightarrow> 'a::len word" where
  "word_le bs = foldr (\<lambda>b acc. ucast b OR push_bit 8 acc) bs 0"

text \<open>A C object of integer type lies in memory in host byte order: least significant byte at
  the lowest address on a little-endian host, most significant byte there on a big-endian one.
  \<^verbatim>\<open>RS_IS_LITTLE_ENDIAN\<close> finds out which at run time; in the model the answer is the parameter
  \<open>le\<close>. \<open>storeN le w\<close> is the object representation of \<open>w\<close> (what \<^verbatim>\<open>*((uintN_t *) ptr) = w\<close>
  puts at \<open>ptr\<close>), \<open>loadN le bs\<close> the value of the object with representation \<open>bs\<close>.\<close>

definition store16 :: "bool \<Rightarrow> uint16_t \<Rightarrow> byte list" where
  "store16 le w = (if le then bytes_le16 w else rev (bytes_le16 w))"

definition store32 :: "bool \<Rightarrow> uint32_t \<Rightarrow> byte list" where
  "store32 le w = (if le then bytes_le32 w else rev (bytes_le32 w))"

definition store64 :: "bool \<Rightarrow> uint64_t \<Rightarrow> byte list" where
  "store64 le w = (if le then bytes_le64 w else rev (bytes_le64 w))"

definition load32 :: "bool \<Rightarrow> byte list \<Rightarrow> uint32_t" where
  "load32 le bs = word_le (if le then bs else rev bs)"

definition load64 :: "bool \<Rightarrow> byte list \<Rightarrow> uint64_t" where
  "load64 le bs = word_le (if le then bs else rev bs)"

text \<open>\<^verbatim>\<open>__builtin_bswap16\<close> and \<^verbatim>\<open>__builtin_bswap64\<close> reverse the bytes of their argument;
  \<^verbatim>\<open>RS_HTON16\<close> and \<^verbatim>\<open>RS_HTON64\<close> apply them on a little-endian host only.\<close>

definition bswap16 :: "uint16_t \<Rightarrow> uint16_t" where
  "bswap16 w = word_le (rev (bytes_le16 w))"

definition bswap64 :: "uint64_t \<Rightarrow> uint64_t" where
  "bswap64 w = word_le (rev (bytes_le64 w))"

definition RS_HTON16 :: "bool \<Rightarrow> uint16_t \<Rightarrow> uint16_t" where
  "RS_HTON16 le n16 = (if le then bswap16 n16 else n16)"

definition RS_HTON64 :: "bool \<Rightarrow> uint64_t \<Rightarrow> uint64_t" where
  "RS_HTON64 le n64 = (if le then bswap64 n64 else n64)"

subsection \<open>The callback argument \<^verbatim>\<open>struct rs\<close> and the environment\<close>

text \<open>Modelled from the spec: \<^verbatim>\<open>struct rs_conf\<close>, \<^verbatim>\<open>struct rs\<close> (\<^verbatim>\<open>rs_app_cb_args\<close>) and
  \<^verbatim>\<open>enum rs_outbound_kind\<close> are declared in headers that are not among the sources. The
  records hold the fields which ringsocket_app_helper.h reads and writes; sizes and counts are
  \<^verbatim>\<open>size_t\<close>, the two halves of a client id are \<^verbatim>\<open>uint32_t\<close>. The kinds are those of the spec,
  \<open>kind \<in> {SINGLE, ARRAY, EVERY, EVERY_EXCEPT_SINGLE, EVERY_EXCEPT_ARRAY}\<close>, numbered from 0 in
  this order.\<close>

record rs_conf =
  max_ws_msg_size :: size_t
  realloc_multiplier :: size_t
  worker_c :: size_t

datatype rs_outbound_kind =
  RS_OUTBOUND_SINGLE | RS_OUTBOUND_ARRAY | RS_OUTBOUND_EVERY
  | RS_OUTBOUND_EVERY_EXCEPT_SINGLE | RS_OUTBOUND_EVERY_EXCEPT_ARRAY

primrec kind_byte :: "rs_outbound_kind \<Rightarrow> byte" where
  "kind_byte RS_OUTBOUND_SINGLE = 0"
| "kind_byte RS_OUTBOUND_ARRAY = 1"
| "kind_byte RS_OUTBOUND_EVERY = 2"
| "kind_byte RS_OUTBOUND_EVERY_EXCEPT_SINGLE = 3"
| "kind_byte RS_OUTBOUND_EVERY_EXCEPT_ARRAY = 4"

text \<open>\<open>wbuf\<close> is the scratch buffer \<^verbatim>\<open>*n->wbuf\<close> (\<open>None\<close> for the null pointer, otherwise the
  bytes of the allocation), \<open>wbuf_size\<close> is \<^verbatim>\<open>*n->wbuf_size\<close>. \<open>outbound_rings n i\<close> is the
  sequence of bytes which the app has written into the outbound ring of worker \<open>i\<close>, in the
  order of writing: \<^verbatim>\<open>rs_prepare_ring_write\<close> (ringsocket_ring.h, not among the sources) decides
  where in memory they go, not what they are.\<close>

record rs =
  conf :: rs_conf
  wbuf :: "byte list option"
  wbuf_size :: size_t
  wbuf_i :: size_t
  outbound_rings :: "nat \<Rightarrow> byte list"
  src_worker_thread_i :: uint32_t
  src_peer_i :: uint32_t

text \<open>What the helper functions get from outside: the byte order of the host, whether
  \<^verbatim>\<open>calloc()\<close> and \<^verbatim>\<open>realloc()\<close> deliver memory, and the statuses of \<^verbatim>\<open>rs_prepare_ring_write\<close>
  (for a worker and a message size) and \<^verbatim>\<open>rs_enqueue_ring_update\<close> (for a worker), two
  functions of ringsocket_ring.h and ringsocket_queue.h that are taken as parameters.\<close>

record app_env =
  is_little_endian :: bool
  calloc_ok :: bool
  realloc_ok :: bool
  rs_prepare_ring_write :: "nat \<Rightarrow> size_t \<Rightarrow> rs_ret"
  rs_enqueue_ring_update :: "nat \<Rightarrow> rs_ret"

text \<open>Modelled from the spec: the macro \<^verbatim>\<open>RS_GUARD_APP\<close> is not among the sources. It is taken
  to be the guarded-return pattern of the spec (``a callee's non-OK result is returned to its
  caller unchanged''), as \<^verbatim>\<open>RS_GUARD\<close> of ringsocket_api.h is.

  \<^verbatim>\<open>rs_w_p\<close>, the \<^verbatim>\<open>rs_w_uintN\<close> functions and \<^verbatim>\<open>rs_send\<close> are declared \<^verbatim>\<open>void\<close> and yet leave
  through \<^verbatim>\<open>return RS_FATAL\<close> or a guard. Their models yield the status named by the return
  statement that ends the call, and \<open>RS_OK\<close> when the end of the body is reached. The
  functions that call them do so in plain statements and never look at that status.\<close>

subsection \<open>Client ids\<close>

text \<open>\<^verbatim>\<open>*((uint64_t *) (uint32_t []){n->src_worker_thread_i, n->src_peer_i})\<close>: two 32-bit
  objects side by side, read as one 64-bit object.\<close>

definition rs_get_client_id :: "bool \<Rightarrow> rs \<Rightarrow> uint64_t" where
  "rs_get_client_id le n =
     load64 le (store32 le (src_worker_thread_i n) @ store32 le (src_peer_i n))"

text \<open>\<^verbatim>\<open>uint32_t * u32 = (uint32_t *) &client_id\<close>: \<open>client_id_u32 le cid k\<close> is \<^verbatim>\<open>u32[k]\<close>, for
  \<open>k\<close> 0 or 1.\<close>

definition client_id_u32 :: "bool \<Rightarrow> uint64_t \<Rightarrow> nat \<Rightarrow> uint32_t" where
  "client_id_u32 le client_id k = load32 le (take 4 (drop (4 * k) (store64 le client_id)))"

subsection \<open>The scratch buffer\<close>

text \<open>\<^verbatim>\<open>RS_CALLOC\<close> and \<^verbatim>\<open>RS_REALLOC\<close> return \<open>RS_FATAL\<close> from the enclosing function when the
  pointer has the wrong nullness or the allocation fails; \<^verbatim>\<open>RS_REALLOC\<close> stores the null
  result in the pointer before it tests it. Memory that \<^verbatim>\<open>realloc()\<close> adds is indeterminate in
  C and zero here.\<close>

definition rs_check_app_wsize :: "app_env \<Rightarrow> rs \<Rightarrow> size_t \<Rightarrow> rs_ret \<times> rs" where
  "rs_check_app_wsize env n incr_size =
     (if wbuf n = None \<and> \<not> calloc_ok env then (RS_FATAL, n)
      else
        (let n = (if wbuf n = None
                  then n\<lparr>wbuf := Some (replicate (unat (wbuf_size n)) 0)\<rparr> else n)
         in if wbuf_i n + incr_size \<ge> wbuf_size n then
              (let n = n\<lparr>wbuf_size := realloc_multiplier (conf n) * (wbuf_i n + incr_size)\<rparr>
               in case wbuf n of
                    None \<Rightarrow> (RS_FATAL, n)
                  | Some b \<Rightarrow>
                      if realloc_ok env
                      then (RS_OK, n\<lparr>wbuf := Some (take (unat (wbuf_size n))
                                      (b @ replicate (unat (wbuf_size n) - length b) 0))\<rparr>)
                      else (RS_FATAL, n\<lparr>wbuf := None\<rparr>))
            else (RS_OK, n)))"

text \<open>A store of the bytes \<open>bs\<close> at offset \<open>i\<close> of an allocation. A store that does not fit
  into the allocation is undefined in C; the model keeps the length of the allocation and
  drops what falls outside.\<close>

definition mem_store :: "byte list \<Rightarrow> nat \<Rightarrow> byte list \<Rightarrow> byte list" where
  "mem_store buf i bs = take (length buf) (take i buf @ bs @ drop (i + length bs) buf)"

definition scratch_store :: "rs \<Rightarrow> byte list \<Rightarrow> rs" where
  "scratch_store n bs =
     n\<lparr>wbuf := map_option (\<lambda>b. mem_store b (unat (wbuf_i n)) bs) (wbuf n)\<rparr>"

definition rs_w_p :: "app_env \<Rightarrow> rs \<Rightarrow> byte list \<Rightarrow> size_t \<Rightarrow> rs_ret \<times> rs" where
  "rs_w_p env n src sz =
     (case rs_check_app_wsize env n sz of
        (st, n) \<Rightarrow>
          if st \<noteq> RS_OK then (st, n)
          else (let n = scratch_store n (take (unat sz) src)
                in (RS_OK, n\<lparr>wbuf_i := wbuf_i n + sz\<rparr>)))"

definition rs_w_uint8 :: "app_env \<Rightarrow> rs \<Rightarrow> byte \<Rightarrow> rs_ret \<times> rs" where
  "rs_w_uint8 env n u8 =
     (case rs_check_app_wsize env n 1 of
        (st, n) \<Rightarrow>
          if st \<noteq> RS_OK then (st, n)
          else (let n = scratch_store n [u8]
                in (RS_OK, n\<lparr>wbuf_i := wbuf_i n + 1\<rparr>)))"

definition rs_w_uint16 :: "app_env \<Rightarrow> rs \<Rightarrow> uint16_t \<Rightarrow> rs_ret \<times> rs" where
  "rs_w_uint16 env n u16 =
     (case rs_check_app_wsize env n 2 of
        (st, n) \<Rightarrow>
          if st \<noteq> RS_OK then (st, n)
          else (let n = scratch_store n (store16 (is_little_endian env) u16)
                in (RS_OK, n\<lparr>wbuf_i := wbuf_i n + 2\<rparr>)))"

definition rs_w_uint32 :: "app_env \<Rightarrow> rs \<Rightarrow> uint32_t \<Rightarrow> rs_ret \<times> rs" where
  "rs_w_uint32 env n u32 =
     (case rs_check_app_wsize env n 4 of
        (st, n) \<Rightarrow>
          if st \<noteq> RS_OK then (st, n)
          else (let n = scratch_store n (store32 (is_little_endian env) u32)
                in (RS_OK, n\<lparr>wbuf_i := wbuf_i n + 4\<rparr>)))"

text \<open>The parameter of \<^verbatim>\<open>rs_w_uint64\<close> is declared \<^verbatim>\<open>uint32_t u64\<close>. The assignment
  \<^verbatim>\<open>*((uint64_t *) ...) = u64\<close> widens it again to 64 bits before it is stored.\<close>

definition rs_w_uint64 :: "app_env \<Rightarrow> rs \<Rightarrow> uint32_t \<Rightarrow> rs_ret \<times> rs" where
  "rs_w_uint64 env n u64 =
     (case rs_check_app_wsize env n 8 of
        (st, n) \<Rightarrow>
          if st \<noteq> RS_OK then (st, n)
          else (let n = scratch_store n (store64 (is_little_endian env) (ucast u64))
                in (RS_OK, n\<lparr>wbuf_i := wbuf_i n + 8\<rparr>)))"

text \<open>\<^verbatim>\<open>rs_w_uint64(n, RS_HTON64(u64))\<close>: the 64-bit argument is converted to the type of the
  parameter, \<^verbatim>\<open>uint32_t\<close>, at the call. The function itself has no return statement.\<close>

definition rs_w_uint64_hton :: "app_env \<Rightarrow> rs \<Rightarrow> uint64_t \<Rightarrow> rs" where
  "rs_w_uint64_hton env n u64 =
     snd (rs_w_uint64 env n (ucast (RS_HTON64 (is_little_endian env) u64)))"

subsection \<open>\<^verbatim>\<open>rs_send\<close>\<close>

text \<open>The loop \<^verbatim>\<open>do { *((uint32_t *) ring->writer) = *recipients++; ring->writer += 4; }
  while (--recipient_c);\<close> and the bytes it writes. Reading past the end of the array is
  undefined in C and yields 0 here.\<close>

function emit_recipients :: "bool \<Rightarrow> uint32_t list \<Rightarrow> uint32_t \<Rightarrow> byte list" where
  "emit_recipients le recipients recipient_c =
     store32 le (case recipients of [] \<Rightarrow> 0 | r # _ \<Rightarrow> r) @
     (if recipient_c - 1 \<noteq> 0 then emit_recipients le (tl recipients) (recipient_c - 1) else [])"
  by pat_completeness auto
termination
proof (relation "measure (\<lambda>(le, recipients, recipient_c). unat (recipient_c - 1))")
  show "wf (measure (\<lambda>(le, recipients, recipient_c :: uint32_t). unat (recipient_c - 1)))"
    by simp
next
  fix le :: bool and recipients :: "uint32_t list" and recipient_c :: uint32_t
  assume nz: "recipient_c - 1 \<noteq> 0"
  then have "unat (recipient_c - 1) \<noteq> 0"
    by (simp only: unat_eq_0 not_False_eq_True)
  moreover have "unat (recipient_c - 1 - 1) = unat (recipient_c - 1) - 1"
    using nz by (rule unat_minus_one)
  ultimately have "unat (recipient_c - 1 - 1) < unat (recipient_c - 1)"
    by arith
  then show "((le, tl recipients, recipient_c - 1), (le, recipients, recipient_c))
      \<in> measure (\<lambda>(le, recipients, recipient_c). unat (recipient_c - 1))"
    by simp
qed

text \<open>Lines 174 to 184: the kind byte and the recipients.\<close>

definition rs_send_routing ::
  "bool \<Rightarrow> rs_outbound_kind \<Rightarrow> uint32_t list \<Rightarrow> uint32_t \<Rightarrow> byte list" where
  "rs_send_routing le outbound_kind recipients recipient_c =
     [kind_byte outbound_kind] @
     (if recipient_c \<noteq> 0
      then (if recipient_c > 1 then store32 le recipient_c else []) @
           emit_recipients le recipients recipient_c
      else [])"

text \<open>Lines 162 to 170: the size passed to \<^verbatim>\<open>rs_prepare_ring_write\<close>.\<close>

definition rs_send_msg_size :: "size_t \<Rightarrow> size_t" where
  "rs_send_msg_size payload_size =
     (let msg_size = payload_size;
          msg_size = (if msg_size > 0xFFFF then msg_size + 10
                      else if msg_size > 125 then msg_size + 4
                      else msg_size + 2)
      in msg_size + 1)"

text \<open>Lines 185 to 194: the opcode byte and the length bytes. The tests are made on
  \<open>msg_size\<close>, and no byte is written when \<open>msg_size\<close> is at most 125.\<close>

definition rs_send_ws_header :: "bool \<Rightarrow> bool \<Rightarrow> size_t \<Rightarrow> size_t \<Rightarrow> byte list" where
  "rs_send_ws_header le is_utf8 msg_size payload_size =
     [if is_utf8 then 0x81 else 0x82] @
     (if msg_size > 0xFFFF then [127] @ store64 le (RS_HTON64 le payload_size)
      else if msg_size > 125 then [126] @ store16 le (RS_HTON16 le (ucast payload_size))
      else [])"

text \<open>Lines 195 to 202: the scratch bytes and the bytes of \<open>p\<close>.\<close>

definition rs_send_payload :: "rs \<Rightarrow> byte list \<Rightarrow> size_t \<Rightarrow> byte list" where
  "rs_send_payload n p sz =
     (if wbuf_i n \<noteq> 0
      then take (unat (wbuf_i n)) (case wbuf n of None \<Rightarrow> [] | Some b \<Rightarrow> b) else []) @
     (if sz \<noteq> 0 then take (unat sz) p else [])"

definition rs_send ::
  "app_env \<Rightarrow> rs \<Rightarrow> nat \<Rightarrow> rs_outbound_kind \<Rightarrow> uint32_t list \<Rightarrow> uint32_t \<Rightarrow> bool
     \<Rightarrow> byte list \<Rightarrow> size_t \<Rightarrow> rs_ret \<times> rs" where
  "rs_send env n worker_i outbound_kind recipients recipient_c is_utf8 p sz =
     (let payload_size = wbuf_i n + sz
      in if payload_size > max_ws_msg_size (conf n) then (RS_FATAL, n)
         else
           (let msg_size = rs_send_msg_size payload_size;
                st = rs_prepare_ring_write env worker_i msg_size
            in if st \<noteq> RS_OK then (st, n)
               else
                 (let le = is_little_endian env;
                      written = rs_send_routing le outbound_kind recipients recipient_c
                        @ rs_send_ws_header le is_utf8 msg_size payload_size
                        @ rs_send_payload n p sz;
                      n = n\<lparr>outbound_rings :=
                            (outbound_rings n)(worker_i := outbound_rings n worker_i @ written)\<rparr>;
                      st = rs_enqueue_ring_update env worker_i
                  in if st \<noteq> RS_OK then (st, n) else (RS_OK, n))))"

subsection \<open>The send-to functions\<close>

definition rs_to_single :: "app_env \<Rightarrow> rs \<Rightarrow> bool \<Rightarrow> uint64_t \<Rightarrow> byte list \<Rightarrow> size_t \<Rightarrow> rs" where
  "rs_to_single env n is_utf8 client_id p sz =
     (let le = is_little_endian env;
          n = snd (rs_send env n (unat (client_id_u32 le client_id 0)) RS_OUTBOUND_SINGLE
                [client_id_u32 le client_id 1] 1 is_utf8 p sz)
      in n\<lparr>wbuf_i := 0\<rparr>)"

definition rs_to_cur :: "app_env \<Rightarrow> rs \<Rightarrow> bool \<Rightarrow> byte list \<Rightarrow> size_t \<Rightarrow> rs" where
  "rs_to_cur env n is_utf8 p sz =
     (let n = snd (rs_send env n (unat (src_worker_thread_i n)) RS_OUTBOUND_SINGLE
                [src_peer_i n] 1 is_utf8 p sz)
      in n\<lparr>wbuf_i := 0\<rparr>)"

text \<open>The inner loop of \<^verbatim>\<open>rs_to_multi\<close>: the peer halves of those of the first \<open>client_c\<close>
  client ids whose worker half is \<open>i\<close>, in their order.\<close>

definition cur_clients :: "bool \<Rightarrow> uint64_t list \<Rightarrow> size_t \<Rightarrow> nat \<Rightarrow> uint32_t list" where
  "cur_clients le client_ids client_c i =
     map (\<lambda>cid. client_id_u32 le cid 1)
       (filter (\<lambda>cid. unat (client_id_u32 le cid 0) = i) (take (unat client_c) client_ids))"

text \<open>The body of the outer loop, for worker \<open>i\<close>. The count \<^verbatim>\<open>cur_client_c\<close> is a \<^verbatim>\<open>size_t\<close>
  and becomes the \<^verbatim>\<open>uint32_t recipient_c\<close> of \<^verbatim>\<open>rs_send\<close>.\<close>

definition rs_to_multi_body ::
  "app_env \<Rightarrow> bool \<Rightarrow> uint64_t list \<Rightarrow> size_t \<Rightarrow> byte list \<Rightarrow> size_t \<Rightarrow> nat \<Rightarrow> rs \<Rightarrow> rs" where
  "rs_to_multi_body env is_utf8 client_ids client_c p sz i n =
     (let cur = cur_clients (is_little_endian env) client_ids client_c i;
          cur_client_c = length cur
      in if cur_client_c = 0 then n
         else if cur_client_c = 1
         then snd (rs_send env n i RS_OUTBOUND_SINGLE cur 1 is_utf8 p sz)
         else snd (rs_send env n i RS_OUTBOUND_ARRAY cur (of_nat cur_client_c) is_utf8 p sz))"

text \<open>\<^verbatim>\<open>for (size_t i = 0; i < n->conf->worker_c; i++)\<close>, from \<open>i\<close> on.\<close>

function rs_to_multi_from ::
  "app_env \<Rightarrow> bool \<Rightarrow> uint64_t list \<Rightarrow> size_t \<Rightarrow> byte list \<Rightarrow> size_t \<Rightarrow> nat \<Rightarrow> rs \<Rightarrow> rs" where
  "rs_to_multi_from env is_utf8 client_ids client_c p sz i n =
     (if i < unat (worker_c (conf n))
      then rs_to_multi_from env is_utf8 client_ids client_c p sz (Suc i)
             (rs_to_multi_body env is_utf8 client_ids client_c p sz i n)
      else n)"
  by pat_completeness auto
termination
  by (relation "measure (\<lambda>(env, is_utf8, client_ids, client_c, p, sz, i, n).
        unat (worker_c (conf n)) - i)")
    (auto simp: rs_to_multi_body_def rs_send_def Let_def)

definition rs_to_multi ::
  "app_env \<Rightarrow> rs \<Rightarrow> bool \<Rightarrow> uint64_t list \<Rightarrow> size_t \<Rightarrow> byte list \<Rightarrow> size_t \<Rightarrow> rs" where
  "rs_to_multi env n is_utf8 client_ids client_c p sz =
     (let n = rs_to_multi_from env is_utf8 client_ids client_c p sz 0 n
      in n\<lparr>wbuf_i := 0\<rparr>)"

declare emit_recipients.simps [simp del]

declare rs_to_multi_from.simps [simp del]

text \<open>What \<^verbatim>\<open>rs_send\<close> writes after the kind byte and the recipients (lines 185 to 202),
  as a function of the state in which it is called.\<close>

definition rs_send_frame :: "app_env \<Rightarrow> rs \<Rightarrow> bool \<Rightarrow> byte list \<Rightarrow> size_t \<Rightarrow> byte list" where
  "rs_send_frame env n is_utf8 p sz =
     rs_send_ws_header (is_little_endian env) is_utf8 (rs_send_msg_size (wbuf_i n + sz))
       (wbuf_i n + sz) @ rs_send_payload n p sz"

subsection \<open>The record of \<^verbatim>\<open>to_multi\<close> according to the spec\<close>

text \<open>The spec's words for \<^verbatim>\<open>to_multi\<close>: for each worker with at least one recipient emit
  \<open>SINGLE\<close> (if 1) or \<open>ARRAY\<close> (if more), in the layout
  \<open>kind:u8 | [recipient_c:u32 if kind is ARRAY] | recipient_ids:u32[...] | frame\<close>; nothing for
  a worker without recipients. \<open>peers\<close> are the recipients of one worker, \<open>frame\<close> is what
  follows the routing header.\<close>

definition to_multi_record :: "bool \<Rightarrow> uint32_t list \<Rightarrow> byte list \<Rightarrow> byte list" where
  "to_multi_record le peers frame =
     (case peers of
        [] \<Rightarrow> []
      | [r] \<Rightarrow> kind_byte RS_OUTBOUND_SINGLE # store32 le r @ frame
      | _ \<Rightarrow> kind_byte RS_OUTBOUND_ARRAY # store32 le (of_nat (length peers))
               @ concat (map (store32 le) peers) @ frame)"

subsection \<open>Values for examples\<close>

text \<open>A little-endian host on which every allocation and every ring operation succeeds, and
  the argument of a callback for peer 7 of worker 0, with a scratch buffer of 16 bytes and
  \<open>max_ws_msg_size = 16\<close>.\<close>

definition example_env :: app_env where
  "example_env = \<lparr>is_little_endian = True, calloc_ok = True, realloc_ok = True,
     rs_prepare_ring_write = (\<lambda>i m. RS_OK), rs_enqueue_ring_update = (\<lambda>i. RS_OK)\<rparr>"

definition example_rs :: rs where
  "example_rs = \<lparr>conf = \<lparr>max_ws_msg_size = 16, realloc_multiplier = 2, worker_c = 2\<rparr>,
     wbuf = Some (replicate 16 0xAA), wbuf_size = 16, wbuf_i = 0, outbound_rings = (\<lambda>i. []),
     src_worker_thread_i = 0, src_peer_i = 7\<rparr>"

section \<open>Properties of the TCP layer\<close>

subsection \<open>Auxiliary facts\<close>

lemma sint_pos_unat: "0 < sint (w :: 64 word) \<Longrightarrow> int (unat w) = sint w"
proof -
  assume a: "0 < sint w"
  have "sint w < 2 ^ 63"
    using sint_lt [of w] by simp
  with a have "take_bit 64 (sint w) = sint w"
    by (simp add: take_bit_int_eq_self)
  then show ?thesis
    using uint_sint [of w] by simp
qed

text \<open>The drain loop returns at the first \<^verbatim>\<open>read()\<close> that yields nothing, with the answer
  to that call, after one \<^verbatim>\<open>read()\<close> and one debug message for each call made.\<close>

lemma read_drain_first:
  assumes "\<forall>j<d. 0 < sint (ret (rd (k + j)))"
    and "\<not> 0 < sint (ret (rd (k + d)))"
  shows "read_drain fd n rd k evs =
     Some (rd (k + d), evs @ concat (replicate (Suc d) [Ev_read fd n, Ev_log LOG_DEBUG]))"
  using assms
proof (induction d arbitrary: k evs)
  case 0
  then show ?case
    by (subst read_drain.simps) (simp add: Let_def)
next
  case (Suc d)
  from Suc.prems(1) have first: "0 < sint (ret (rd k))"
    by (metis add.right_neutral zero_less_Suc)
  have pos: "\<forall>j<d. 0 < sint (ret (rd (Suc k + j)))"
  proof (intro allI impI)
    fix j assume "j < d"
    then have "Suc j < Suc d" by simp
    with Suc.prems(1) have "0 < sint (ret (rd (k + Suc j)))" by blast
    then show "0 < sint (ret (rd (Suc k + j)))" by simp
  qed
  from Suc.prems(2) have stop: "\<not> 0 < sint (ret (rd (Suc k + d)))"
    by simp
  have "read_drain fd n rd k evs =
      read_drain fd n rd (Suc k) (evs @ [Ev_read fd n, Ev_log LOG_DEBUG])"
    using first by (subst read_drain.simps) (simp add: Let_def)
  also have "\<dots> = Some (rd (Suc k + d), (evs @ [Ev_read fd n, Ev_log LOG_DEBUG]) @
      concat (replicate (Suc d) [Ev_read fd n, Ev_log LOG_DEBUG]))"
    using pos stop by (rule Suc.IH)
  finally show ?case
    by simp
qed

lemma release_events_Nil: "release_events [] = []"
  by (simp add: release_events_def)

lemma release_events_Cons:
  "release_events (e # es) = (if is_release_event e then e # release_events es else release_events es)"
  by (simp add: release_events_def)

lemma release_events_append: "release_events (xs @ ys) = release_events xs @ release_events ys"
  by (simp add: release_events_def)

lemma release_events_drain:
  "release_events (concat (replicate m [Ev_read fd n, Ev_log LOG_DEBUG])) = []"
  by (induction m) (simp_all add: release_events_def)

lemma shutdown_read_case_first:
  assumes pos: "\<forall>k<d. 0 < sint (ret (read_replies env k))"
    and stop: "\<not> 0 < sint (ret (read_replies env d))"
  shows "shutdown_read_case p n peer_i env evs =
     Some (if ret (read_replies env d) \<noteq> 0 \<and> errno (read_replies env d) = EAGAIN
           then (RS_OK, p\<lparr>is_writing := False\<rparr>,
                 evs @ concat (replicate (Suc d) [Ev_read (socket_fd p) n, Ev_log LOG_DEBUG]))
           else (RS_OK, zeroed_peer,
                 evs @ concat (replicate (Suc d) [Ev_read (socket_fd p) n, Ev_log LOG_DEBUG])
                   @ (if ret (read_replies env d) = 0 then [] else [Ev_log LOG_WARNING])
                   @ [Ev_close (socket_fd p)]
                   @ (if ret (close_reply env) = - 1 then [Ev_log LOG_ERR] else [])
                   @ [Ev_memset_peer (p\<lparr>mortality := RS_MORTALITY_DEAD\<rparr>),
                      Ev_free_peer_slot peer_i]))"
proof -
  from pos have pos': "\<forall>j<d. 0 < sint (ret (read_replies env (0 + j)))"
    by simp
  from stop have stop': "\<not> 0 < sint (ret (read_replies env (0 + d)))"
    by simp
  have dr: "read_drain (socket_fd p) n (read_replies env) 0 [] =
      Some (read_replies env (0 + d),
        [] @ concat (replicate (Suc d) [Ev_read (socket_fd p) n, Ev_log LOG_DEBUG]))"
    using pos' stop' by (rule read_drain_first)
  show ?thesis
    by (simp add: shutdown_read_case_def read_bidirectional_tcp_shutdown_def dr
        close_and_free_peer_def)
qed

subsection \<open>The claims about rs_tcp.c\<close>

text \<open>C9: whenever \<^verbatim>\<open>read_tcp\<close> does not return \<open>RS_OK\<close> (so it returns \<open>RS_CLOSE_PEER\<close> or
  \<open>RS_AGAIN\<close>) the value stored in \<^verbatim>\<open>*rsize\<close> is 0; the stored value is non-zero only when
  the status is \<open>RS_OK\<close>, and then it is the positive value that \<^verbatim>\<open>read()\<close> returned.\<close>

theorem read_tcp_rsize:
  "read_tcp peer rbuf_size r = (st, peer', rsize, evs) \<Longrightarrow>
     (st \<noteq> RS_OK \<longrightarrow> (st = RS_CLOSE_PEER \<or> st = RS_AGAIN) \<and> rsize = 0) \<and>
     (rsize \<noteq> 0 \<longrightarrow> st = RS_OK) \<and>
     (st = RS_OK \<longrightarrow> rsize = ret r \<and> 0 < sint (ret r) \<and> int (unat rsize) = sint (ret r))"
proof -
  assume run: "read_tcp peer rbuf_size r = (st, peer', rsize, evs)"
  show ?thesis
  proof (cases "0 < sint (ret r)")
    case True
    then have "int (unat (ret r)) = sint (ret r)"
      by (rule sint_pos_unat)
    with True run show ?thesis
      by (auto simp: read_tcp_def Let_def)
  next
    case False
    with run show ?thesis
      by (auto simp: read_tcp_def Let_def split: if_splits)
  qed
qed

theorem read_tcp_rsize_witness:
  "read_tcp zeroed_peer 4096 \<lparr>ret = 5, errno = 0\<rparr>
     = (RS_OK, zeroed_peer, 5, [Ev_read 0 4096]) \<and>
   read_tcp zeroed_peer 4096 \<lparr>ret = -1, errno = 11\<rparr>
     = (RS_AGAIN, zeroed_peer, 0, [Ev_read 0 4096])"
proof -
  have a: "read_tcp zeroed_peer 4096 \<lparr>ret = 5, errno = 0\<rparr>
     = (RS_OK, zeroed_peer, 5, [Ev_read 0 4096])"
    by (simp add: read_tcp_def zeroed_peer_def)
  have b: "read_tcp zeroed_peer 4096 \<lparr>ret = -1, errno = 11\<rparr>
     = (RS_AGAIN, zeroed_peer, 0, [Ev_read 0 4096])"
    by (simp add: read_tcp_def EAGAIN_def zeroed_peer_def)
  from read_tcp_rsize [OF a] read_tcp_rsize [OF b] a b show ?thesis
    by simp
qed


text \<open>C5, as amended: \<^verbatim>\<open>handle_tcp_io\<close> entered with mortality \<open>SHUTDOWN_WRITE\<close> first performs
  \<^verbatim>\<open>shutdown(SHUT_WR)\<close>. When that call succeeds, the mortality advances to \<open>SHUTDOWN_READ\<close> and the
  same invocation proceeds to the read drain; when it fails, \<open>RS_FATAL\<close> is returned, the
  mortality stays \<open>SHUTDOWN_WRITE\<close>, nothing is read and the slot is left alone. The drain reads
  up to the first \<^verbatim>\<open>read()\<close> that yields no bytes, the one answered by \<open>read_replies env d\<close>. If
  that call reports \<open>EAGAIN\<close>, the slot is left intact with mortality \<open>SHUTDOWN_READ\<close> and
  \<open>RS_OK\<close> is returned; otherwise the mortality has reached \<open>DEAD\<close>, and the socket is closed,
  the slot is zeroed and then freed. An invocation entered with \<open>DEAD\<close> closes, zeroes and
  frees at once. The slot is zeroed or freed only when the peer in it is \<open>DEAD\<close>, and the peer
  handed back is never \<open>DEAD\<close>. The invocation returns, given that some \<^verbatim>\<open>read()\<close> of the drain
  yields no bytes.\<close>

theorem handle_tcp_io_mortality:
  assumes pos: "\<forall>k<d. 0 < sint (ret (read_replies env k))"
    and stop: "\<not> 0 < sint (ret (read_replies env d))"
  shows "\<exists>st peer' evs.
     handle_tcp_io peer rbuf_size peer_i env = Some (st, peer', evs) \<and>
     (mortality peer = RS_MORTALITY_SHUTDOWN_WRITE \<longrightarrow>
        (\<exists>rest. evs = Ev_shutdown_wr (socket_fd peer) # rest) \<and>
        (ret (shutdown_reply env) = - 1 \<longrightarrow>
           st = RS_FATAL \<and> peer' = peer \<and>
           evs = [Ev_shutdown_wr (socket_fd peer), Ev_log LOG_CRIT])) \<and>
     (mortality peer = RS_MORTALITY_SHUTDOWN_READ \<or>
      mortality peer = RS_MORTALITY_SHUTDOWN_WRITE \<and> ret (shutdown_reply env) \<noteq> - 1 \<longrightarrow>
        st = RS_OK \<and>
        (if ret (read_replies env d) \<noteq> 0 \<and> errno (read_replies env d) = EAGAIN
         then peer' = peer\<lparr>mortality := RS_MORTALITY_SHUTDOWN_READ, is_writing := False\<rparr> \<and>
              evs = (if mortality peer = RS_MORTALITY_SHUTDOWN_WRITE
                     then [Ev_shutdown_wr (socket_fd peer)] else [])
                @ concat (replicate (Suc d) [Ev_read (socket_fd peer) rbuf_size, Ev_log LOG_DEBUG])
         else peer' = zeroed_peer \<and>
              evs = (if mortality peer = RS_MORTALITY_SHUTDOWN_WRITE
                     then [Ev_shutdown_wr (socket_fd peer)] else [])
                @ concat (replicate (Suc d) [Ev_read (socket_fd peer) rbuf_size, Ev_log LOG_DEBUG])
                @ (if ret (read_replies env d) = 0 then [] else [Ev_log LOG_WARNING])
                @ [Ev_close (socket_fd peer)]
                @ (if ret (close_reply env) = - 1 then [Ev_log LOG_ERR] else [])
                @ [Ev_memset_peer (peer\<lparr>mortality := RS_MORTALITY_DEAD\<rparr>),
                   Ev_free_peer_slot peer_i])) \<and>
     (mortality peer = RS_MORTALITY_DEAD \<longrightarrow>
        st = RS_OK \<and> peer' = zeroed_peer \<and>
        evs = [Ev_close (socket_fd peer)]
          @ (if ret (close_reply env) = - 1 then [Ev_log LOG_ERR] else [])
          @ [Ev_memset_peer peer, Ev_free_peer_slot peer_i]) \<and>
     (release_events evs = [] \<or>
        (\<exists>q. mortality q = RS_MORTALITY_DEAD \<and> st = RS_OK \<and> peer' = zeroed_peer \<and>
           release_events evs =
             [Ev_close (socket_fd q), Ev_memset_peer q, Ev_free_peer_slot peer_i])) \<and>
     mortality peer' \<noteq> RS_MORTALITY_DEAD"
proof (cases "mortality peer")
  case RS_MORTALITY_LIVE
  then show ?thesis
    by (simp add: handle_tcp_io_def Let_def release_events_def)
next
  case RS_MORTALITY_DEAD
  then show ?thesis
    by (simp add: handle_tcp_io_def close_and_free_peer_def release_events_def zeroed_peer_def)
next
  case RS_MORTALITY_SHUTDOWN_READ
  then have same: "peer\<lparr>mortality := RS_MORTALITY_SHUTDOWN_READ, is_writing := False\<rparr>
      = peer\<lparr>is_writing := False\<rparr>"
    by (cases peer) simp
  have h: "handle_tcp_io peer rbuf_size peer_i env = shutdown_read_case peer rbuf_size peer_i env []"
    using RS_MORTALITY_SHUTDOWN_READ by (simp add: handle_tcp_io_def)
  show ?thesis
  proof (cases "ret (read_replies env d) \<noteq> 0 \<and> errno (read_replies env d) = EAGAIN")
    case True
    then show ?thesis
      unfolding h shutdown_read_case_first [OF pos stop]
      using RS_MORTALITY_SHUTDOWN_READ same
      by (simp add: release_events_drain release_events_Cons release_events_Nil release_events_append)
  next
    case False
    then show ?thesis
      unfolding h shutdown_read_case_first [OF pos stop]
      using RS_MORTALITY_SHUTDOWN_READ
      by (auto simp: release_events_drain release_events_Cons release_events_Nil
          release_events_append zeroed_peer_def
          intro!: exI [of _ "peer\<lparr>mortality := RS_MORTALITY_DEAD\<rparr>"])
  qed
next
  case RS_MORTALITY_SHUTDOWN_WRITE
  show ?thesis
  proof (cases "ret (shutdown_reply env) = - 1")
    case True
    with RS_MORTALITY_SHUTDOWN_WRITE show ?thesis
      by (simp add: handle_tcp_io_def write_bidirectional_tcp_shutdown_def release_events_def)
  next
    case False
    let ?p = "peer\<lparr>mortality := RS_MORTALITY_SHUTDOWN_READ\<rparr>"
    have h: "handle_tcp_io peer rbuf_size peer_i env =
        shutdown_read_case ?p rbuf_size peer_i env [Ev_shutdown_wr (socket_fd peer)]"
      using RS_MORTALITY_SHUTDOWN_WRITE False
      by (simp add: handle_tcp_io_def write_bidirectional_tcp_shutdown_def)
    show ?thesis
    proof (cases "ret (read_replies env d) \<noteq> 0 \<and> errno (read_replies env d) = EAGAIN")
      case True
      then show ?thesis
        unfolding h shutdown_read_case_first [OF pos stop]
        using RS_MORTALITY_SHUTDOWN_WRITE False
        by (simp add: release_events_drain release_events_Cons release_events_Nil release_events_append)
    next
      case F2: False
      then show ?thesis
        unfolding h shutdown_read_case_first [OF pos stop]
        using RS_MORTALITY_SHUTDOWN_WRITE False
        by (auto simp: release_events_drain release_events_Cons release_events_Nil
            release_events_append zeroed_peer_def
            intro!: exI [of _ "peer\<lparr>mortality := RS_MORTALITY_DEAD\<rparr>"])
    qed
  qed
qed

text \<open>Two instances of C5 as amended: a peer entered with \<open>SHUTDOWN_WRITE\<close> whose third
  \<^verbatim>\<open>read()\<close> reports \<open>EAGAIN\<close> keeps its slot, and a peer entered with \<open>SHUTDOWN_READ\<close> whose
  first \<^verbatim>\<open>read()\<close> returns 0 is closed, zeroed and freed.\<close>

theorem handle_tcp_io_mortality_witness:
  "0 < sint (ret ((\<lambda>k. if k < 2 then \<lparr>ret = 10, errno = 0\<rparr>
        else \<lparr>ret = - 1, errno = 11\<rparr>) (0 :: nat))) \<and>
   0 < sint (ret ((\<lambda>k. if k < 2 then \<lparr>ret = 10, errno = 0\<rparr>
        else \<lparr>ret = - 1, errno = 11\<rparr>) (1 :: nat))) \<and>
   \<not> 0 < sint (ret ((\<lambda>k. if k < 2 then \<lparr>ret = 10, errno = 0\<rparr>
        else \<lparr>ret = - 1, errno = 11\<rparr>) (2 :: nat))) \<and>
   handle_tcp_io
     \<lparr>socket_fd = 7, is_encrypted = False, layer = RS_LAYER_TCP,
      mortality = RS_MORTALITY_SHUTDOWN_WRITE, is_writing = True, old_wsize = 0\<rparr> 4096 3
     \<lparr>shutdown_reply = \<lparr>ret = 0, errno = 0\<rparr>,
      read_replies = (\<lambda>k. if k < 2 then \<lparr>ret = 10, errno = 0\<rparr> else \<lparr>ret = - 1, errno = 11\<rparr>),
      close_reply = \<lparr>ret = 0, errno = 0\<rparr>,
      init_tls_session = (\<lambda>p. RS_OK)\<rparr>
   = Some (RS_OK,
       \<lparr>socket_fd = 7, is_encrypted = False, layer = RS_LAYER_TCP,
        mortality = RS_MORTALITY_SHUTDOWN_READ, is_writing = False, old_wsize = 0\<rparr>,
       [Ev_shutdown_wr 7, Ev_read 7 4096, Ev_log LOG_DEBUG, Ev_read 7 4096, Ev_log LOG_DEBUG,
        Ev_read 7 4096, Ev_log LOG_DEBUG]) \<and>
   handle_tcp_io
     \<lparr>socket_fd = 7, is_encrypted = False, layer = RS_LAYER_TCP,
      mortality = RS_MORTALITY_SHUTDOWN_READ, is_writing = False, old_wsize = 0\<rparr> 4096 3
     \<lparr>shutdown_reply = \<lparr>ret = 0, errno = 0\<rparr>,
      read_replies = (\<lambda>k. \<lparr>ret = 0, errno = 0\<rparr>),
      close_reply = \<lparr>ret = 0, errno = 0\<rparr>,
      init_tls_session = (\<lambda>p. RS_OK)\<rparr>
   = Some (RS_OK, zeroed_peer,
       [Ev_read 7 4096, Ev_log LOG_DEBUG, Ev_close 7,
        Ev_memset_peer \<lparr>socket_fd = 7, is_encrypted = False, layer = RS_LAYER_TCP,
          mortality = RS_MORTALITY_DEAD, is_writing = False, old_wsize = 0\<rparr>,
        Ev_free_peer_slot 3])"
proof -
  let ?env = "\<lparr>shutdown_reply = \<lparr>ret = 0, errno = 0\<rparr>,
      read_replies = (\<lambda>k::nat. if k < 2 then \<lparr>ret = 10, errno = 0\<rparr>
        else \<lparr>ret = - 1, errno = 11\<rparr>),
      close_reply = \<lparr>ret = 0, errno = 0\<rparr>,
      init_tls_session = (\<lambda>p. RS_OK)\<rparr>"
  let ?peer = "\<lparr>socket_fd = 7, is_encrypted = False, layer = RS_LAYER_TCP,
      mortality = RS_MORTALITY_SHUTDOWN_WRITE, is_writing = True, old_wsize = 0\<rparr>"
  let ?env2 = "\<lparr>shutdown_reply = \<lparr>ret = 0, errno = 0\<rparr>,
      read_replies = (\<lambda>k::nat. \<lparr>ret = 0, errno = 0\<rparr>),
      close_reply = \<lparr>ret = 0, errno = 0\<rparr>,
      init_tls_session = (\<lambda>p. RS_OK)\<rparr>"
  let ?peer2 = "\<lparr>socket_fd = 7, is_encrypted = False, layer = RS_LAYER_TCP,
      mortality = RS_MORTALITY_SHUTDOWN_READ, is_writing = False, old_wsize = 0\<rparr>"
  have pos: "\<forall>k<2. 0 < sint (ret (read_replies ?env k))"
    by simp
  have stop: "\<not> 0 < sint (ret (read_replies ?env 2))"
    by simp
  have pos2: "\<forall>k<0. 0 < sint (ret (read_replies ?env2 k))"
    by simp
  have stop2: "\<not> 0 < sint (ret (read_replies ?env2 0))"
    by simp
  have rep: "concat (replicate 3 [Ev_read 7 4096, Ev_log LOG_DEBUG]) =
      [Ev_read 7 4096, Ev_log LOG_DEBUG, Ev_read 7 4096, Ev_log LOG_DEBUG,
       Ev_read 7 4096, Ev_log LOG_DEBUG]"
    by (simp add: numeral_3_eq_3)
  from handle_tcp_io_mortality [OF pos stop, of ?peer 4096 3]
  have a: "handle_tcp_io ?peer 4096 3 ?env = Some (RS_OK,
       ?peer\<lparr>mortality := RS_MORTALITY_SHUTDOWN_READ, is_writing := False\<rparr>,
       [Ev_shutdown_wr 7, Ev_read 7 4096, Ev_log LOG_DEBUG, Ev_read 7 4096, Ev_log LOG_DEBUG,
        Ev_read 7 4096, Ev_log LOG_DEBUG])"
    by (auto simp: EAGAIN_def rep)
  from handle_tcp_io_mortality [OF pos2 stop2, of ?peer2 4096 3]
  have b: "handle_tcp_io ?peer2 4096 3 ?env2 = Some (RS_OK, zeroed_peer,
       [Ev_read 7 4096, Ev_log LOG_DEBUG, Ev_close 7,
        Ev_memset_peer (?peer2\<lparr>mortality := RS_MORTALITY_DEAD\<rparr>), Ev_free_peer_slot 3])"
    by auto
  from a b show ?thesis
    by simp
qed

text \<open>C5 as stated fails when \<^verbatim>\<open>shutdown()\<close> fails: entered with \<open>SHUTDOWN_WRITE\<close> and
  \<^verbatim>\<open>shutdown()\<close> returning -1 (with \<open>ENOTCONN\<close>, 107), \<^verbatim>\<open>handle_tcp_io\<close> returns \<open>RS_FATAL\<close>
  through its guard, with the mortality still \<open>SHUTDOWN_WRITE\<close> and without a single
  \<^verbatim>\<open>read()\<close>.\<close>

theorem handle_tcp_io_shutdown_failure:
  "handle_tcp_io
     \<lparr>socket_fd = 7, is_encrypted = False, layer = RS_LAYER_TCP,
      mortality = RS_MORTALITY_SHUTDOWN_WRITE, is_writing = False, old_wsize = 0\<rparr> 4096 3
     \<lparr>shutdown_reply = \<lparr>ret = - 1, errno = 107\<rparr>,
      read_replies = (\<lambda>k. \<lparr>ret = 0, errno = 0\<rparr>),
      close_reply = \<lparr>ret = 0, errno = 0\<rparr>,
      init_tls_session = (\<lambda>p. RS_OK)\<rparr>
   = Some (RS_FATAL,
       \<lparr>socket_fd = 7, is_encrypted = False, layer = RS_LAYER_TCP,
        mortality = RS_MORTALITY_SHUTDOWN_WRITE, is_writing = False, old_wsize = 0\<rparr>,
       [Ev_shutdown_wr 7, Ev_log LOG_CRIT])"
  by (simp add: handle_tcp_io_def write_bidirectional_tcp_shutdown_def)

text \<open>C2 (the code departs from it): when \<^verbatim>\<open>write()\<close> returns 0 or -1, \<^verbatim>\<open>write_tcp\<close> should return
  \<open>RS_AGAIN\<close> exactly when \<^verbatim>\<open>errno\<close> is \<open>EAGAIN\<close>, and otherwise log and return \<open>RS_CLOSE_PEER\<close>.
  The condition \<^verbatim>\<open>errno = EAGAIN\<close> is an assignment: with \<^verbatim>\<open>write()\<close> returning -1 and \<^verbatim>\<open>errno\<close>
  being \<open>EPIPE\<close> (32), \<^verbatim>\<open>write_tcp\<close> overwrites \<^verbatim>\<open>errno\<close> with \<open>EAGAIN\<close>, sets \<open>is_writing\<close>, logs
  nothing and returns \<open>RS_AGAIN\<close>.\<close>

theorem write_tcp_errno_overwritten:
  "write_tcp \<lparr>socket_fd = 7, is_encrypted = False, layer = RS_LAYER_WEBSOCKET,
      mortality = RS_MORTALITY_LIVE, is_writing = False, old_wsize = 0\<rparr>
     [1, 2, 3] 3 [] \<lparr>ret = - 1, errno = 32\<rparr>
   = (RS_AGAIN,
      \<lparr>socket_fd = 7, is_encrypted = False, layer = RS_LAYER_WEBSOCKET,
       mortality = RS_MORTALITY_LIVE, is_writing = True, old_wsize = 0\<rparr>,
      [], EAGAIN, [Ev_write 7 [1, 2, 3]])"
  by (simp add: write_tcp_def EAGAIN_def)

text \<open>The same on every input: no call in which \<^verbatim>\<open>write()\<close> returns 0 or less ends in
  \<open>RS_CLOSE_PEER\<close>.\<close>

lemma write_tcp_never_closes:
  "fst (write_tcp peer buf n sock r) \<noteq> RS_CLOSE_PEER"
  by (simp add: write_tcp_def EAGAIN_def Let_def)




section \<open>Properties of the app helper functions\<close>

subsection \<open>Byte order\<close>

lemma word_le_Nil: "word_le [] = 0"
  by (simp add: word_le_def)

lemma word_le_Cons: "word_le (b # bs) = ucast b OR push_bit 8 (word_le bs)"
  by (simp add: word_le_def)

lemma word_le_bytes_le32: "word_le (bytes_le32 w) = w"
  apply (rule bit_word_eqI)
  apply (simp only: bytes_le32_def word_le_Cons word_le_Nil bit_simps)
  apply (auto simp: bit_simps)
  done

lemma bytes_le64_word_le:
  "bytes_le64 (word_le [b0, b1, b2, b3, b4, b5, b6, b7]) = [b0, b1, b2, b3, b4, b5, b6, b7]"
  apply (simp only: bytes_le64_def list.inject simp_thms)
  apply (intro conjI; rule bit_word_eqI; simp only: word_le_Cons word_le_Nil bit_simps;
      auto simp: bit_simps dest: bit_imp_le_length)
  done

lemma load32_store32: "load32 le (store32 le w) = w"
  by (simp add: load32_def store32_def word_le_bytes_le32)

lemma length_store32 [simp]: "length (store32 le w) = 4"
  by (simp add: store32_def bytes_le32_def)

lemma store64_load64:
  assumes "length bs = 8"
  shows "store64 le (load64 le bs) = bs"
proof -
  from assms obtain b0 b1 b2 b3 b4 b5 b6 b7 where bs: "bs = [b0, b1, b2, b3, b4, b5, b6, b7]"
    by (auto simp: length_Suc_conv eval_nat_numeral)
  show ?thesis
    unfolding bs by (simp add: store64_def load64_def bytes_le64_word_le)
qed

lemma client_id_u32_pack:
  "client_id_u32 le (rs_get_client_id le n) 0 = src_worker_thread_i n"
  "client_id_u32 le (rs_get_client_id le n) (Suc 0) = src_peer_i n"
  by (simp_all add: client_id_u32_def rs_get_client_id_def store64_load64 load32_store32)

lemma client_id_u32_halves:
  "client_id_u32 le cid 0 = (if le then ucast cid else ucast (drop_bit 32 cid))"
  "client_id_u32 le cid (Suc 0) = (if le then ucast (drop_bit 32 cid) else ucast cid)"
  apply (simp_all add: client_id_u32_def store64_def bytes_le64_def load32_def)
  apply (intro conjI impI; rule bit_word_eqI; simp only: word_le_Cons word_le_Nil bit_simps;
      auto simp: bit_simps dest: bit_imp_le_length)+
  done

subsection \<open>What \<^verbatim>\<open>rs_send\<close> writes\<close>

lemma rs_send_fatal:
  "max_ws_msg_size (conf n) < wbuf_i n + sz \<Longrightarrow>
     rs_send env n worker_i kind recipients recipient_c is_utf8 p sz = (RS_FATAL, n)"
  by (simp add: rs_send_def Let_def)

lemma rs_send_ok:
  assumes "wbuf_i n + sz \<le> max_ws_msg_size (conf n)"
    and "rs_prepare_ring_write env worker_i (rs_send_msg_size (wbuf_i n + sz)) = RS_OK"
    and "rs_enqueue_ring_update env worker_i = RS_OK"
  shows "rs_send env n worker_i kind recipients recipient_c is_utf8 p sz =
     (RS_OK, n\<lparr>outbound_rings := (outbound_rings n)(worker_i := outbound_rings n worker_i @
        rs_send_routing (is_little_endian env) kind recipients recipient_c @
        rs_send_frame env n is_utf8 p sz)\<rparr>)"
  using assms by (simp add: rs_send_def Let_def rs_send_frame_def not_less [symmetric])

lemma emit_recipients_one: "emit_recipients le [r] 1 = store32 le r"
  by (subst emit_recipients.simps) simp

lemma unat_of_nat_32: "k < 2 ^ 32 \<Longrightarrow> unat (of_nat k :: uint32_t) = k"
  by (simp add: unat_of_nat)

lemma of_nat_32_nonzero:
  assumes "0 < k" and "k < 2 ^ 32"
  shows "(of_nat k :: uint32_t) \<noteq> 0"
proof
  assume "(of_nat k :: uint32_t) = 0"
  then have "unat (of_nat k :: uint32_t) = 0"
    by simp
  with assms show False
    by (simp only: unat_of_nat_32)
qed

lemma emit_recipients_all:
  "rs \<noteq> [] \<Longrightarrow> length rs < 2 ^ 32 \<Longrightarrow>
     emit_recipients le rs (of_nat (length rs)) = concat (map (store32 le) rs)"
proof (induction rs)
  case Nil
  then show ?case by simp
next
  case (Cons r rs)
  show ?case
  proof (cases "rs = []")
    case True
    then show ?thesis by (simp add: emit_recipients_one)
  next
    case False
    with Cons.prems have nz: "(of_nat (length rs) :: uint32_t) \<noteq> 0"
      by (intro of_nat_32_nonzero) auto
    from False Cons have IH: "emit_recipients le rs (of_nat (length rs)) = concat (map (store32 le) rs)"
      by simp
    show ?thesis
      by (subst emit_recipients.simps) (simp add: nz IH)
  qed
qed

lemma routing_single:
  "rs_send_routing le RS_OUTBOUND_SINGLE [r] 1 = kind_byte RS_OUTBOUND_SINGLE # store32 le r"
  by (simp add: rs_send_routing_def emit_recipients_one)

lemma routing_array:
  assumes "2 \<le> length rs" and "length rs < 2 ^ 32"
  shows "rs_send_routing le RS_OUTBOUND_ARRAY rs (of_nat (length rs)) =
     kind_byte RS_OUTBOUND_ARRAY # store32 le (of_nat (length rs)) @ concat (map (store32 le) rs)"
proof -
  from assms have ne: "rs \<noteq> []" by auto
  from assms have u: "unat (of_nat (length rs) :: uint32_t) = length rs"
    by (simp add: unat_of_nat_32)
  then have gt: "(1 :: uint32_t) < of_nat (length rs)"
    using assms by (simp add: word_less_nat_alt)
  then have nz: "(of_nat (length rs) :: uint32_t) \<noteq> 0"
    by auto
  show ?thesis
    using gt nz by (simp add: rs_send_routing_def emit_recipients_all [OF ne assms(2)])
qed

lemma rs_send_payload_eq:
  "rs_send_payload n p sz =
     take (unat (wbuf_i n)) (case wbuf n of None \<Rightarrow> [] | Some b \<Rightarrow> b) @ take (unat sz) p"
  by (simp add: rs_send_payload_def unat_eq_0)

subsection \<open>The loop of \<^verbatim>\<open>rs_to_multi\<close>\<close>

lemma rs_send_frame_rings [simp]:
  "rs_send_frame env (m\<lparr>outbound_rings := f\<rparr>) is_utf8 p sz = rs_send_frame env m is_utf8 p sz"
  by (simp add: rs_send_frame_def rs_send_payload_def)

lemma length_cur_clients: "length (cur_clients le ids client_c i) \<le> unat client_c"
proof -
  have "length (cur_clients le ids client_c i) \<le> length (take (unat client_c) ids)"
    unfolding cur_clients_def length_map by (rule length_filter_le)
  then show ?thesis by simp
qed

lemma rs_to_multi_body_effect:
  assumes acc: "wbuf_i m + sz \<le> max_ws_msg_size (conf m)"
    and prep: "rs_prepare_ring_write env i (rs_send_msg_size (wbuf_i m + sz)) = RS_OK"
    and enq: "rs_enqueue_ring_update env i = RS_OK"
    and cnt: "unat client_c < 2 ^ 32"
  shows "rs_to_multi_body env is_utf8 ids client_c p sz i m =
     m\<lparr>outbound_rings := (outbound_rings m)(i := outbound_rings m i @
        to_multi_record (is_little_endian env) (cur_clients (is_little_endian env) ids client_c i)
          (rs_send_frame env m is_utf8 p sz))\<rparr>"
proof -
  let ?le = "is_little_endian env"
  let ?cur = "cur_clients ?le ids client_c i"
  have len: "length ?cur < 2 ^ 32"
    using length_cur_clients [of ?le ids client_c i] cnt by simp
  show ?thesis
  proof (cases ?cur)
    case Nil
    then show ?thesis
      by (simp add: rs_to_multi_body_def to_multi_record_def)
  next
    case (Cons r rest)
    show ?thesis
    proof (cases rest)
      case Nil
      with Cons have c: "?cur = [r]" by simp
      show ?thesis
        by (simp add: rs_to_multi_body_def c to_multi_record_def Let_def
            rs_send_ok [OF acc prep enq] routing_single)
    next
      case (Cons r2 rest2)
      with \<open>?cur = r # rest\<close> have c: "?cur = r # r2 # rest2" by simp
      then have two: "2 \<le> length ?cur" by simp
      have rt: "rs_send_routing ?le RS_OUTBOUND_ARRAY ?cur (of_nat (length ?cur)) =
         kind_byte RS_OUTBOUND_ARRAY # store32 ?le (of_nat (length ?cur))
           @ concat (map (store32 ?le) ?cur)"
        using two len by (rule routing_array)
      have mr: "to_multi_record ?le ?cur (rs_send_frame env m is_utf8 p sz) =
         rs_send_routing ?le RS_OUTBOUND_ARRAY ?cur (of_nat (length ?cur))
           @ rs_send_frame env m is_utf8 p sz"
        unfolding rt by (simp add: to_multi_record_def c)
      have b: "rs_to_multi_body env is_utf8 ids client_c p sz i m =
         snd (rs_send env m i RS_OUTBOUND_ARRAY ?cur (of_nat (length ?cur)) is_utf8 p sz)"
        using two c by (auto simp: rs_to_multi_body_def Let_def)
      show ?thesis
        unfolding b mr by (simp add: rs_send_ok [OF acc prep enq])
    qed
  qed
qed

lemma rs_to_multi_from_effect:
  assumes acc: "wbuf_i m + sz \<le> max_ws_msg_size (conf m)"
    and prep: "\<forall>j < unat (worker_c (conf m)).
        rs_prepare_ring_write env j (rs_send_msg_size (wbuf_i m + sz)) = RS_OK"
    and enq: "\<forall>j < unat (worker_c (conf m)). rs_enqueue_ring_update env j = RS_OK"
    and cnt: "unat client_c < 2 ^ 32"
  shows "rs_to_multi_from env is_utf8 ids client_c p sz i m =
     m\<lparr>outbound_rings := (\<lambda>j. outbound_rings m j @
        (if i \<le> j \<and> j < unat (worker_c (conf m))
         then to_multi_record (is_little_endian env)
                (cur_clients (is_little_endian env) ids client_c j)
                (rs_send_frame env m is_utf8 p sz)
         else []))\<rparr>"
  using assms
proof (induction "unat (worker_c (conf m)) - i" arbitrary: i m)
  case 0
  then have stop: "\<not> i < unat (worker_c (conf m))" by simp
  then have "(\<lambda>j. outbound_rings m j @
        (if i \<le> j \<and> j < unat (worker_c (conf m))
         then to_multi_record (is_little_endian env)
                (cur_clients (is_little_endian env) ids client_c j)
                (rs_send_frame env m is_utf8 p sz)
         else [])) = outbound_rings m"
    by (auto simp: fun_eq_iff)
  with stop show ?case
    by (subst rs_to_multi_from.simps) simp
next
  case (Suc k)
  then have lt: "i < unat (worker_c (conf m))" by simp
  let ?le = "is_little_endian env"
  let ?rec = "\<lambda>j. to_multi_record ?le (cur_clients ?le ids client_c j) (rs_send_frame env m is_utf8 p sz)"
  let ?m' = "m\<lparr>outbound_rings := (outbound_rings m)(i := outbound_rings m i @ ?rec i)\<rparr>"
  have body: "rs_to_multi_body env is_utf8 ids client_c p sz i m = ?m'"
    using Suc.prems lt by (intro rs_to_multi_body_effect) auto
  have k: "k = unat (worker_c (conf ?m')) - Suc i"
    using Suc.hyps(2) by simp
  have IH: "rs_to_multi_from env is_utf8 ids client_c p sz (Suc i) ?m' =
     ?m'\<lparr>outbound_rings := (\<lambda>j. outbound_rings ?m' j @
        (if Suc i \<le> j \<and> j < unat (worker_c (conf ?m'))
         then to_multi_record ?le (cur_clients ?le ids client_c j) (rs_send_frame env ?m' is_utf8 p sz)
         else []))\<rparr>"
    using Suc.prems by (intro Suc.hyps(1) [OF k]) simp_all
  have rings: "(\<lambda>j. outbound_rings ?m' j @
        (if Suc i \<le> j \<and> j < unat (worker_c (conf ?m')) then ?rec j else []))
     = (\<lambda>j. outbound_rings m j @
        (if i \<le> j \<and> j < unat (worker_c (conf m)) then ?rec j else []))"
    using lt by (auto simp: fun_eq_iff)
  show ?case
    apply (subst rs_to_multi_from.simps)
    apply (simp only: lt if_True body IH rs_send_frame_rings)
    apply (simp only: rings)
    apply simp
    done
qed

subsection \<open>The claims about ringsocket_app_helper.h\<close>

text \<open>C1 (the code departs from it): after the opcode byte (\<open>0x81\<close> for text, \<open>0x82\<close> for
  binary) \<^verbatim>\<open>rs_send\<close> should write the WebSocket length of the payload: one byte for a payload
  of at most 125 bytes, \<open>126\<close> and a big-endian 16-bit length up to 65535, \<open>127\<close> and a
  big-endian 64-bit length beyond. In the code a text payload of 2 bytes is written right
  after \<open>0x81\<close>, with no length byte at all, and a binary payload of 123 bytes gets the three
  length bytes \<open>126, 0, 123\<close> in place of the single byte \<open>123\<close>.\<close>

theorem rs_send_length_bytes:
  "fst (rs_send example_env example_rs 0 RS_OUTBOUND_SINGLE [7] 1 True [0x79, 0x6F] 2) = RS_OK \<and>
   outbound_rings
     (snd (rs_send example_env example_rs 0 RS_OUTBOUND_SINGLE [7] 1 True [0x79, 0x6F] 2)) 0
     = [0, 7, 0, 0, 0, 0x81, 0x79, 0x6F] \<and>
   fst (rs_send example_env (example_rs\<lparr>conf := (conf example_rs)\<lparr>max_ws_msg_size := 1024\<rparr>\<rparr>) 0
       RS_OUTBOUND_SINGLE [7] 1 False (replicate 123 0x41) 123) = RS_OK \<and>
   outbound_rings
     (snd (rs_send example_env (example_rs\<lparr>conf := (conf example_rs)\<lparr>max_ws_msg_size := 1024\<rparr>\<rparr>) 0
       RS_OUTBOUND_SINGLE [7] 1 False (replicate 123 0x41) 123)) 0
     = [0, 7, 0, 0, 0, 0x82, 126, 0, 123] @ replicate 123 0x41"
  by (simp add: rs_send_def example_rs_def example_env_def rs_send_msg_size_def
      rs_send_routing_def rs_send_ws_header_def rs_send_payload_def emit_recipients_one
      store32_def bytes_le32_def store16_def bytes_le16_def RS_HTON16_def bswap16_def word_le_def)

text \<open>C3, as amended: \<^verbatim>\<open>rs_to_single\<close> takes the worker from the first 32-bit word of the
  client id as it lies in memory and the recipient from the second. For a client id made by
  \<^verbatim>\<open>rs_get_client_id\<close> these are the worker index and the peer index that were packed, on
  either byte order, so that the call is the \<^verbatim>\<open>rs_send\<close> to that worker with kind \<open>SINGLE\<close>
  and that one recipient, followed by the reset of the scratch offset; when the send is
  accepted and the ring operations succeed, the record is appended to the ring of that worker
  and to no other. The worker is the high-order half of the 64-bit value on a big-endian host
  only: on a little-endian host it is the low-order half and the recipient is the high-order
  half.\<close>

theorem rs_to_single_addresses:
  "client_id_u32 le (rs_get_client_id le n') 0 = src_worker_thread_i n' \<and>
   client_id_u32 le (rs_get_client_id le n') 1 = src_peer_i n' \<and>
   client_id_u32 le cid 0 = (if le then ucast cid else ucast (drop_bit 32 cid)) \<and>
   client_id_u32 le cid 1 = (if le then ucast (drop_bit 32 cid) else ucast cid) \<and>
   rs_to_single env n is_utf8 (rs_get_client_id (is_little_endian env) n') p sz =
     (snd (rs_send env n (unat (src_worker_thread_i n')) RS_OUTBOUND_SINGLE [src_peer_i n'] 1
        is_utf8 p sz))\<lparr>wbuf_i := 0\<rparr> \<and>
   (wbuf_i n + sz \<le> max_ws_msg_size (conf n) \<and>
    rs_prepare_ring_write env (unat (src_worker_thread_i n')) (rs_send_msg_size (wbuf_i n + sz))
      = RS_OK \<and>
    rs_enqueue_ring_update env (unat (src_worker_thread_i n')) = RS_OK \<longrightarrow>
    outbound_rings (rs_to_single env n is_utf8 (rs_get_client_id (is_little_endian env) n') p sz) =
      (outbound_rings n)(unat (src_worker_thread_i n') :=
         outbound_rings n (unat (src_worker_thread_i n')) @
         kind_byte RS_OUTBOUND_SINGLE # store32 (is_little_endian env) (src_peer_i n') @
         rs_send_frame env n is_utf8 p sz))"
proof -
  have eq: "rs_to_single env n is_utf8 (rs_get_client_id (is_little_endian env) n') p sz =
     (snd (rs_send env n (unat (src_worker_thread_i n')) RS_OUTBOUND_SINGLE [src_peer_i n'] 1
        is_utf8 p sz))\<lparr>wbuf_i := 0\<rparr>"
    by (simp add: rs_to_single_def Let_def client_id_u32_pack)
  have ring: "outbound_rings (rs_to_single env n is_utf8 (rs_get_client_id (is_little_endian env) n') p sz) =
      (outbound_rings n)(unat (src_worker_thread_i n') :=
         outbound_rings n (unat (src_worker_thread_i n')) @
         kind_byte RS_OUTBOUND_SINGLE # store32 (is_little_endian env) (src_peer_i n') @
         rs_send_frame env n is_utf8 p sz)"
    if h: "wbuf_i n + sz \<le> max_ws_msg_size (conf n) \<and>
      rs_prepare_ring_write env (unat (src_worker_thread_i n')) (rs_send_msg_size (wbuf_i n + sz))
        = RS_OK \<and>
      rs_enqueue_ring_update env (unat (src_worker_thread_i n')) = RS_OK"
  proof -
    from h have "rs_send env n (unat (src_worker_thread_i n')) RS_OUTBOUND_SINGLE
        [src_peer_i n'] 1 is_utf8 p sz =
      (RS_OK, n\<lparr>outbound_rings := (outbound_rings n)(unat (src_worker_thread_i n') :=
         outbound_rings n (unat (src_worker_thread_i n')) @
         rs_send_routing (is_little_endian env) RS_OUTBOUND_SINGLE [src_peer_i n'] 1 @
         rs_send_frame env n is_utf8 p sz)\<rparr>)"
      by (intro rs_send_ok) simp_all
    then show ?thesis
      unfolding eq by (simp add: routing_single)
  qed
  have a: "client_id_u32 le (rs_get_client_id le n') 0 = src_worker_thread_i n'"
    by (rule client_id_u32_pack)
  have b: "client_id_u32 le (rs_get_client_id le n') 1 = src_peer_i n'"
    using client_id_u32_pack(2) [of le n'] by simp
  have c: "client_id_u32 le cid 0 = (if le then ucast cid else ucast (drop_bit 32 cid))"
    by (rule client_id_u32_halves)
  have d: "client_id_u32 le cid 1 = (if le then ucast (drop_bit 32 cid) else ucast cid)"
    using client_id_u32_halves(2) [of le cid] by simp
  show ?thesis
    by (intro conjI impI a b c d eq ring) simp_all
qed

text \<open>An instance of C3 as amended: on the little-endian example host, the id of peer 7 of
  worker 0 sends to the ring of worker 0 with recipient 7.\<close>

theorem rs_to_single_addresses_witness:
  "wbuf_i example_rs + 2 \<le> max_ws_msg_size (conf example_rs) \<and>
   rs_get_client_id True example_rs = 0x700000000 \<and>
   outbound_rings (rs_to_single example_env example_rs False (rs_get_client_id True example_rs)
      [0x41, 0x42] 2) 0 = [0, 7, 0, 0, 0, 0x82, 0x41, 0x42]"
proof -
  have le: "is_little_endian example_env = True"
    by (simp add: example_env_def)
  have acc: "wbuf_i example_rs + 2 \<le> max_ws_msg_size (conf example_rs)"
    by (simp add: example_rs_def)
  have cid: "rs_get_client_id True example_rs = 0x700000000"
    by (simp add: rs_get_client_id_def example_rs_def load64_def store32_def bytes_le32_def
        word_le_def)
  have prep: "rs_prepare_ring_write example_env (unat (src_worker_thread_i example_rs))
      (rs_send_msg_size (wbuf_i example_rs + 2)) = RS_OK"
    by (simp add: example_env_def)
  have enq: "rs_enqueue_ring_update example_env (unat (src_worker_thread_i example_rs)) = RS_OK"
    by (simp add: example_env_def)
  have frame: "rs_send_frame example_env example_rs False [0x41, 0x42] 2 = [0x82, 0x41, 0x42]"
    by (simp add: rs_send_frame_def rs_send_ws_header_def rs_send_msg_size_def rs_send_payload_def
        example_rs_def)
  have ex: "src_worker_thread_i example_rs = 0" "src_peer_i example_rs = 7"
    "outbound_rings example_rs = (\<lambda>i. [])"
    "rs_prepare_ring_write example_env = (\<lambda>i m. RS_OK)"
    "rs_enqueue_ring_update example_env = (\<lambda>i. RS_OK)"
    by (simp_all add: example_rs_def example_env_def)
  have "outbound_rings (rs_to_single example_env example_rs False
        (rs_get_client_id (is_little_endian example_env) example_rs) [0x41, 0x42] 2) =
      (outbound_rings example_rs)(unat (src_worker_thread_i example_rs) :=
         outbound_rings example_rs (unat (src_worker_thread_i example_rs)) @
         kind_byte RS_OUTBOUND_SINGLE # store32 (is_little_endian example_env) (src_peer_i example_rs) @
         rs_send_frame example_env example_rs False [0x41, 0x42] 2)"
    using rs_to_single_addresses [of True example_rs 0 example_env example_rs False "[0x41, 0x42]" 2]
      acc prep enq
    by blast
  with acc cid show ?thesis
    by (simp add: le frame ex store32_def bytes_le32_def)
qed

text \<open>C3 as stated fails on a little-endian host: the id packed from worker 0 and peer 7 is
  \<open>0x0000000700000000\<close>, whose high-order half is 7 and whose low-order half is 0;
  \<^verbatim>\<open>rs_to_single\<close> writes to the ring of worker 0 with recipient 7 and leaves the ring of
  worker 7 alone.\<close>

theorem rs_to_single_halves_swapped:
  "rs_get_client_id True example_rs = 0x700000000 \<and>
   src_worker_thread_i example_rs = 0 \<and> src_peer_i example_rs = 7 \<and>
   (ucast (drop_bit 32 (0x700000000 :: uint64_t)) :: uint32_t) = 7 \<and>
   (ucast (0x700000000 :: uint64_t) :: uint32_t) = 0 \<and>
   outbound_rings (rs_to_single example_env example_rs False 0x700000000 [0x41, 0x42] 2) 7 = [] \<and>
   outbound_rings (rs_to_single example_env example_rs False 0x700000000 [0x41, 0x42] 2) 0
     = [0, 7, 0, 0, 0, 0x82, 0x41, 0x42]"
  by (simp add: rs_get_client_id_def example_rs_def example_env_def load64_def store32_def
      bytes_le32_def word_le_def rs_to_single_def rs_send_def rs_send_msg_size_def
      rs_send_routing_def rs_send_ws_header_def rs_send_payload_def client_id_u32_halves
      emit_recipients_one)

text \<open>C4 (the code departs from it): a send whose payload size exceeds \<open>max_ws_msg_size\<close>
  should return \<open>RS_FATAL\<close>, write no bytes to the ring and leave the scratch offset as it is.
  With \<open>max_ws_msg_size = 16\<close>, 10 bytes of scratch and 7 more bytes, \<^verbatim>\<open>rs_send\<close> runs into its
  \<^verbatim>\<open>return RS_FATAL\<close> and writes nothing; but \<^verbatim>\<open>rs_send\<close> and \<^verbatim>\<open>rs_to_single\<close> are declared
  \<^verbatim>\<open>void\<close>, the call is a plain statement without a guard, and \<^verbatim>\<open>rs_to_single\<close> goes on to
  \<^verbatim>\<open>n->wbuf_i = 0\<close>: the scratch offset is reset from 10 to 0 and no status reaches the
  caller.\<close>

theorem rs_to_single_resets_scratch_on_fatal:
  "max_ws_msg_size (conf (example_rs\<lparr>wbuf_i := 10\<rparr>)) = 16 \<and>
   wbuf_i (example_rs\<lparr>wbuf_i := 10\<rparr>) = 10 \<and>
   fst (rs_send example_env (example_rs\<lparr>wbuf_i := 10\<rparr>) 0 RS_OUTBOUND_SINGLE [7] 1 False
     [1, 2, 3, 4, 5, 6, 7] 7) = RS_FATAL \<and>
   rs_to_single example_env (example_rs\<lparr>wbuf_i := 10\<rparr>) False 0x700000000
     [1, 2, 3, 4, 5, 6, 7] 7 = example_rs\<lparr>wbuf_i := 0\<rparr> \<and>
   wbuf_i (rs_to_single example_env (example_rs\<lparr>wbuf_i := 10\<rparr>) False 0x700000000
     [1, 2, 3, 4, 5, 6, 7] 7) = 0"
  by (simp add: rs_to_single_def rs_send_def example_rs_def example_env_def)

text \<open>C7: \<^verbatim>\<open>rs_to_multi\<close> partitions the client ids by their worker half. To the ring of each
  worker index below \<open>worker_c\<close> it appends nothing when no id has that worker, one \<open>SINGLE\<close>
  record with the one peer id when exactly one has, and one \<open>ARRAY\<close> record with the count
  followed by all peer ids of that worker, in their order, when more have; the rest of every
  record is the same frame, which ends with the scratch bytes and the bytes of \<open>p\<close>. Rings of
  other indices are left alone, and the scratch offset is reset. This holds for a payload
  within \<open>max_ws_msg_size\<close>, ring operations that succeed and a count that fits the
  \<^verbatim>\<open>uint32_t\<close> parameter of \<^verbatim>\<open>rs_send\<close>.\<close>

theorem rs_to_multi_records:
  assumes acc: "wbuf_i n + sz \<le> max_ws_msg_size (conf n)"
    and prep: "\<forall>j < unat (worker_c (conf n)).
        rs_prepare_ring_write env j (rs_send_msg_size (wbuf_i n + sz)) = RS_OK"
    and enq: "\<forall>j < unat (worker_c (conf n)). rs_enqueue_ring_update env j = RS_OK"
    and cnt: "unat client_c < 2 ^ 32"
  shows "outbound_rings (rs_to_multi env n is_utf8 client_ids client_c p sz) i =
       outbound_rings n i @
         (if i < unat (worker_c (conf n))
          then to_multi_record (is_little_endian env)
                 (map (\<lambda>cid. client_id_u32 (is_little_endian env) cid 1)
                    (filter (\<lambda>cid. unat (client_id_u32 (is_little_endian env) cid 0) = i)
                       (take (unat client_c) client_ids)))
                 (rs_send_frame env n is_utf8 p sz)
          else []) \<and>
     rs_send_frame env n is_utf8 p sz =
       rs_send_ws_header (is_little_endian env) is_utf8 (rs_send_msg_size (wbuf_i n + sz))
         (wbuf_i n + sz) @
       take (unat (wbuf_i n)) (case wbuf n of None \<Rightarrow> [] | Some b \<Rightarrow> b) @ take (unat sz) p \<and>
     wbuf_i (rs_to_multi env n is_utf8 client_ids client_c p sz) = 0"
  by (simp add: rs_to_multi_def Let_def rs_to_multi_from_effect [OF acc prep enq cnt]
      cur_clients_def rs_send_frame_def rs_send_payload_eq)

text \<open>An instance of C7: the ids of peers 7 and 9 of worker 0 and of peer 3 of worker 1.\<close>

theorem rs_to_multi_records_witness:
  "wbuf_i example_rs + 2 \<le> max_ws_msg_size (conf example_rs) \<and>
   unat (3 :: size_t) < 2 ^ 32 \<and>
   outbound_rings (rs_to_multi example_env example_rs False
      [0x700000000, 0x300000001, 0x900000000] 3 [0x41, 0x42] 2) 0
     = [1, 2, 0, 0, 0, 7, 0, 0, 0, 9, 0, 0, 0, 0x82, 0x41, 0x42] \<and>
   outbound_rings (rs_to_multi example_env example_rs False
      [0x700000000, 0x300000001, 0x900000000] 3 [0x41, 0x42] 2) 1
     = [0, 3, 0, 0, 0, 0x82, 0x41, 0x42]"
proof -
  have acc: "wbuf_i example_rs + 2 \<le> max_ws_msg_size (conf example_rs)"
    by (simp add: example_rs_def)
  have prep: "\<forall>j < unat (worker_c (conf example_rs)).
      rs_prepare_ring_write example_env j (rs_send_msg_size (wbuf_i example_rs + 2)) = RS_OK"
    by (simp add: example_env_def)
  have enq: "\<forall>j < unat (worker_c (conf example_rs)). rs_enqueue_ring_update example_env j = RS_OK"
    by (simp add: example_env_def)
  have cnt: "unat (3 :: size_t) < 2 ^ 32"
    by simp
  have le: "is_little_endian example_env"
    by (simp add: example_env_def)
  have ids: "client_id_u32 True 0x700000000 0 = 0" "client_id_u32 True 0x700000000 (Suc 0) = 7"
    "client_id_u32 True 0x300000001 0 = 1" "client_id_u32 True 0x300000001 (Suc 0) = 3"
    "client_id_u32 True 0x900000000 0 = 0" "client_id_u32 True 0x900000000 (Suc 0) = 9"
    by (simp_all add: client_id_u32_halves)
  have frame: "rs_send_frame example_env example_rs False [0x41, 0x42] 2 = [0x82, 0x41, 0x42]"
    by (simp add: rs_send_frame_def rs_send_ws_header_def rs_send_msg_size_def rs_send_payload_def
        example_rs_def)
  have w: "unat (worker_c (conf example_rs)) = 2" "outbound_rings example_rs = (\<lambda>i. [])"
    by (simp_all add: example_rs_def)
  from rs_to_multi_records [OF acc prep enq cnt, of False "[0x700000000, 0x300000001, 0x900000000]" "[0x41, 0x42]" 0]
    rs_to_multi_records [OF acc prep enq cnt, of False "[0x700000000, 0x300000001, 0x900000000]" "[0x41, 0x42]" 1]
    acc cnt
  show ?thesis
    by (simp add: le ids frame w to_multi_record_def store32_def bytes_le32_def)
qed

text \<open>C8 (the code departs from it): \<^verbatim>\<open>rs_w_uint64\<close> should append all 8 bytes of a 64-bit
  value in host order, and \<^verbatim>\<open>rs_w_uint64_hton\<close> its 8 bytes in network order. The parameter
  of \<^verbatim>\<open>rs_w_uint64\<close> is a \<^verbatim>\<open>uint32_t\<close>: on a little-endian host the value
  \<open>0x0000000100000002\<close> is stored as \<open>02 00 00 00 00 00 00 00\<close>, without its high half, and
  \<^verbatim>\<open>rs_w_uint64_hton\<close> of 1 stores eight zero bytes, where network order is
  \<open>00 00 00 00 00 00 00 01\<close>.\<close>

theorem rs_w_uint64_truncates:
  "rs_w_uint64 example_env example_rs (ucast (0x0000000100000002 :: uint64_t))
     = (RS_OK, example_rs\<lparr>wbuf := Some ([2, 0, 0, 0, 0, 0, 0, 0] @ replicate 8 0xAA),
          wbuf_i := 8\<rparr>) \<and>
   store64 True 0x0000000100000002 = [2, 0, 0, 0, 1, 0, 0, 0] \<and>
   rs_w_uint64_hton example_env example_rs 1
     = example_rs\<lparr>wbuf := Some ([0, 0, 0, 0, 0, 0, 0, 0] @ replicate 8 0xAA), wbuf_i := 8\<rparr> \<and>
   store64 False 1 = [0, 0, 0, 0, 0, 0, 0, 1]"
  by (simp add: rs_w_uint64_hton_def rs_w_uint64_def rs_check_app_wsize_def example_rs_def
      example_env_def scratch_store_def mem_store_def store64_def bytes_le64_def RS_HTON64_def
      bswap64_def word_le_def)

text \<open>C10, as amended: if \<open>realloc_multiplier \<ge> 2\<close> and \<open>incr_size \<ge> 1\<close>, the scratch buffer
  (when there is one) is \<open>wbuf_size\<close> bytes long, and neither \<open>wbuf_i + incr_size\<close> nor
  \<open>realloc_multiplier * (wbuf_i + incr_size)\<close> exceeds the range of \<^verbatim>\<open>size_t\<close>, then whenever
  \<^verbatim>\<open>rs_check_app_wsize\<close> returns \<open>RS_OK\<close> the buffer is not null, is \<open>wbuf_size\<close> bytes long,
  and \<open>wbuf_i + incr_size\<close> is less than its length, so that an append of \<open>incr_size\<close> bytes
  at offset \<open>wbuf_i\<close> stays inside it.\<close>

theorem rs_check_app_wsize_room:
  assumes mult: "2 \<le> realloc_multiplier (conf n)"
    and incr: "1 \<le> incr_size"
    and inv: "\<forall>b. wbuf n = Some b \<longrightarrow> length b = unat (wbuf_size n)"
    and nosum: "unat (wbuf_i n) + unat incr_size < 2 ^ 64"
    and noprod: "unat (realloc_multiplier (conf n)) * (unat (wbuf_i n) + unat incr_size) < 2 ^ 64"
    and ok: "rs_check_app_wsize env n incr_size = (RS_OK, n')"
  shows "\<exists>b. wbuf n' = Some b \<and> length b = unat (wbuf_size n') \<and>
     unat (wbuf_i n') + unat incr_size < length b \<and> wbuf_i n' = wbuf_i n"
proof -
  let ?s = "wbuf_i n + incr_size"
  have s: "unat ?s = unat (wbuf_i n) + unat incr_size"
    using nosum unat_add_lem [of "wbuf_i n" incr_size] by simp
  have s1: "1 \<le> unat ?s"
    using incr s by (simp add: word_le_nat_alt)
  have m2: "2 \<le> unat (realloc_multiplier (conf n))"
    using mult by (simp add: word_le_nat_alt)
  have prod: "unat (realloc_multiplier (conf n) * ?s) = unat (realloc_multiplier (conf n)) * unat ?s"
    using noprod s unat_mult_lem [of "realloc_multiplier (conf n)" ?s] by simp
  have grow: "unat ?s < unat (realloc_multiplier (conf n) * ?s)"
  proof -
    have "unat ?s * 2 \<le> unat ?s * unat (realloc_multiplier (conf n))"
      using m2 by (rule mult_le_mono2)
    with s1 prod show ?thesis by (simp add: mult.commute)
  qed
  show ?thesis
  proof (cases "wbuf_size n \<le> ?s")
    case True
    with ok grow s inv show ?thesis
      by (auto simp: rs_check_app_wsize_def Let_def split: if_splits option.splits)
  next
    case False
    then have "unat ?s < unat (wbuf_size n)"
      by (simp add: word_le_nat_alt)
    with False ok s inv show ?thesis
      by (auto simp: rs_check_app_wsize_def Let_def split: if_splits option.splits)
  qed
qed

text \<open>An instance of C10 as amended: 8 more bytes at offset 12 of the 16-byte buffer make it
  grow to 40 bytes.\<close>

theorem rs_check_app_wsize_room_witness:
  "rs_check_app_wsize example_env (example_rs\<lparr>wbuf_i := 12\<rparr>) 8
     = (RS_OK, example_rs\<lparr>wbuf_i := 12, wbuf_size := 40,
          wbuf := Some (replicate 16 0xAA @ replicate 24 0)\<rparr>) \<and>
   unat (12 :: size_t) + unat (8 :: size_t) < length (replicate 16 (0xAA :: byte) @ replicate 24 0)"
proof -
  let ?n = "example_rs\<lparr>wbuf_i := 12\<rparr>"
  have mult: "2 \<le> realloc_multiplier (conf ?n)" by (simp add: example_rs_def)
  have incr: "1 \<le> (8 :: size_t)" by simp
  have inv: "\<forall>b. wbuf ?n = Some b \<longrightarrow> length b = unat (wbuf_size ?n)"
    by (simp add: example_rs_def)
  have nosum: "unat (wbuf_i ?n) + unat (8 :: size_t) < 2 ^ 64" by (simp add: example_rs_def)
  have noprod: "unat (realloc_multiplier (conf ?n)) * (unat (wbuf_i ?n) + unat (8 :: size_t)) < 2 ^ 64"
    by (simp add: example_rs_def)
  have ok: "rs_check_app_wsize example_env ?n 8
     = (RS_OK, example_rs\<lparr>wbuf_i := 12, wbuf_size := 40,
          wbuf := Some (replicate 16 0xAA @ replicate 24 0)\<rparr>)"
    by (simp add: rs_check_app_wsize_def example_rs_def example_env_def)
  from rs_check_app_wsize_room [OF mult incr inv nosum noprod ok] ok show ?thesis
    by simp
qed

text \<open>C10 as stated fails when the arithmetic wraps around. With the 16-byte buffer,
  \<open>wbuf_i = 0\<close> and \<open>incr_size = 2\<^sup>6\<^sup>3 + 1\<close>, the product \<open>2 * (wbuf_i + incr_size)\<close> is 2
  in \<^verbatim>\<open>size_t\<close>: the buffer is reallocated to 2 bytes, \<open>RS_OK\<close> is returned, and
  \<open>wbuf_i + incr_size\<close> is not less than \<open>wbuf_size\<close>. At offset 8,
  \<open>incr_size = 2\<^sup>6\<^sup>4 - 4\<close> makes the sum 4: the test passes, nothing is reallocated and
  \<open>RS_OK\<close> is returned for an append that would end far beyond the 16 bytes.\<close>

theorem rs_check_app_wsize_wraps:
  "2 \<le> realloc_multiplier (conf example_rs) \<and>
   1 \<le> (0x8000000000000001 :: size_t) \<and>
   rs_check_app_wsize example_env example_rs 0x8000000000000001
     = (RS_OK, example_rs\<lparr>wbuf_size := 2, wbuf := Some (replicate 2 0xAA)\<rparr>) \<and>
   \<not> wbuf_i example_rs + 0x8000000000000001 < (2 :: size_t) \<and>
   1 \<le> (0xFFFFFFFFFFFFFFFC :: size_t) \<and>
   rs_check_app_wsize example_env (example_rs\<lparr>wbuf_i := 8\<rparr>) 0xFFFFFFFFFFFFFFFC
     = (RS_OK, example_rs\<lparr>wbuf_i := 8\<rparr>) \<and>
   wbuf (example_rs\<lparr>wbuf_i := 8\<rparr>) = Some (replicate 16 0xAA) \<and>
   \<not> unat (8 :: size_t) + unat (0xFFFFFFFFFFFFFFFC :: size_t)
       < length (replicate 16 (0xAA :: byte))"
  by (simp add: rs_check_app_wsize_def example_rs_def example_env_def)

end
